theory Spec2Isabelle
  imports Complex_Main
begin

section \<open>The QR studio's rendering core (QRGenerator.tsx)\<close>

text \<open>
  The component keeps its options, the logo and the last artifact in React state and draws
  on one canvas. The model follows the source function by function: the 2D context is a
  record holding the current drawing state, the stack of saved states, the current path and
  the list of paint operations issued so far, each with the drawing state it was issued
  under. JavaScript numbers are taken as exact. The symbol's size and the caption's font
  size are natural numbers: the sliders that set them produce whole pixel counts (200 to 500
  and 12 to 24), and a negative size is no input of the component. Derived geometry is real.
  A colour is a string that the canvas accepts as a CSS colour, as the colour pickers
  produce it.

  A render is asynchronous: \<open>generateQR\<close> awaits the encoder, then draws in the \<open>onload\<close>
  handler of the symbol image and, with a logo, in the \<open>onload\<close> handler of the logo
  image. The model runs these stages of one render in their order, with no other event of
  the component in between.
\<close>

subsection \<open>Options (interface QROptions)\<close>

datatype ecLevel = EC_L | EC_M | EC_Q | EC_H

datatype frameType =
  FNone | Simple | Rounded | Gradient | Neon | Vintage | SpeechBubble | Wavy | CardStyle

datatype shape = Square | RoundedShape | Circle | Hexagon

record QROptions =
  qtext :: string
  qsize :: nat
  foregroundColor :: string
  backgroundColor :: string
  errorCorrectionLevel :: ecLevel
  margin :: int
  frameType :: frameType
  frameColor :: string
  shape :: shape
  bottomText :: string
  bottomTextColor :: string
  bottomTextSize :: nat

subsection \<open>The 2D drawing context\<close>

type_synonym point = "real \<times> real"

datatype paint =
  Color string
  | LinearGradient real real real real "(real \<times> string) list"

datatype seg =
  MoveTo real real
  | LineTo real real
  | ClosePath
  | Rect real real real real
  | RoundRect real real real real real
  | Arc real real real real real

text \<open>
  The drawing state is what \<open>save\<close> pushes and \<open>restore\<close> pops: styles, line width,
  shadow, font, alignment and the clipping region (the list of paths clipped to so far,
  the region being their intersection). The current path is not part of it.
\<close>

record ctx_state =
  fillStyle :: paint
  strokeStyle :: paint
  lineWidth :: real
  shadowColor :: string
  shadowBlur :: real
  shadowOffsetX :: real
  shadowOffsetY :: real
  font :: "nat \<times> string"
  textAlign :: string
  clipPaths :: "seg list list"

datatype image = QrImg string | LogoImg string

datatype draw_op =
  ClearRect real real real real
  | StrokeRect real real real real
  | FillRect real real real real
  | Stroke "seg list"
  | Fill "seg list"
  | DrawImage image real real real real
  | FillText string real real

text \<open>
  Each paint operation is logged with the part of the render that issued it: the clearing
  of the canvas, a call of \<open>drawFrame\<close>, the symbol image, the logo's backing disc, the
  logo image, the caption.
\<close>

datatype layer = ClearLayer | FrameLayer | SymbolLayer | LogoDiscLayer | LogoLayer | CaptionLayer

record draw =
  d_layer :: layer
  d_op :: draw_op
  d_state :: ctx_state

record ctx2d =
  cur :: ctx_state
  stack :: "ctx_state list"
  path :: "seg list"
  drawn :: "draw list"

definition default_state :: ctx_state where
  "default_state =
     \<lparr>fillStyle = Color ''#000000'', strokeStyle = Color ''#000000'', lineWidth = 1,
      shadowColor = ''rgba(0, 0, 0, 0)'', shadowBlur = 0, shadowOffsetX = 0,
      shadowOffsetY = 0, font = (10, ''sans-serif''), textAlign = ''start'',
      clipPaths = []\<rparr>"

definition fresh_ctx :: ctx2d where
  "fresh_ctx = \<lparr>cur = default_state, stack = [], path = [], drawn = []\<rparr>"

definition save :: "ctx2d \<Rightarrow> ctx2d" where
  "save c = c\<lparr>stack := cur c # stack c\<rparr>"

definition restore :: "ctx2d \<Rightarrow> ctx2d" where
  "restore c = (case stack c of [] \<Rightarrow> c | s # ss \<Rightarrow> c\<lparr>cur := s, stack := ss\<rparr>)"

definition beginPath :: "ctx2d \<Rightarrow> ctx2d" where
  "beginPath c = c\<lparr>path := []\<rparr>"

definition addSeg :: "seg \<Rightarrow> ctx2d \<Rightarrow> ctx2d" where
  "addSeg s c = c\<lparr>path := path c @ [s]\<rparr>"

definition addSegs :: "seg list \<Rightarrow> ctx2d \<Rightarrow> ctx2d" where
  "addSegs ss c = c\<lparr>path := path c @ ss\<rparr>"

definition clip :: "ctx2d \<Rightarrow> ctx2d" where
  "clip c = c\<lparr>cur := (cur c)\<lparr>clipPaths := clipPaths (cur c) @ [path c]\<rparr>\<rparr>"

definition set_state :: "(ctx_state \<Rightarrow> ctx_state) \<Rightarrow> ctx2d \<Rightarrow> ctx2d" where
  "set_state f c = c\<lparr>cur := f (cur c)\<rparr>"

definition paint_op :: "layer \<Rightarrow> draw_op \<Rightarrow> ctx2d \<Rightarrow> ctx2d" where
  "paint_op l p c = c\<lparr>drawn := drawn c @ [\<lparr>d_layer = l, d_op = p, d_state = cur c\<rparr>]\<rparr>"

definition stroke :: "layer \<Rightarrow> ctx2d \<Rightarrow> ctx2d" where
  "stroke l c = paint_op l (Stroke (path c)) c"

definition fill :: "layer \<Rightarrow> ctx2d \<Rightarrow> ctx2d" where
  "fill l c = paint_op l (Fill (path c)) c"

text \<open>A block of statements, run in order.\<close>

definition run :: "(ctx2d \<Rightarrow> ctx2d) list \<Rightarrow> ctx2d \<Rightarrow> ctx2d" where
  "run cmds c = fold (\<lambda>f s. f s) cmds c"

subsection \<open>applyQRShape\<close>

text \<open>The hexagon's loop: \<open>for (let i = 1; i <= 6; i++)\<close>, one \<open>lineTo\<close> per turn.\<close>

definition hexVertex :: "real \<Rightarrow> real \<Rightarrow> real \<Rightarrow> int \<Rightarrow> point" where
  "hexVertex centerX centerY hexRadius i =
     (let angle = (real_of_int i * pi) / 3
      in (centerX + hexRadius * cos angle, centerY + hexRadius * sin angle))"

definition hexLines :: "real \<Rightarrow> real \<Rightarrow> real \<Rightarrow> seg list" where
  "hexLines centerX centerY hexRadius =
     map (\<lambda>i. LineTo (fst (hexVertex centerX centerY hexRadius i))
                      (snd (hexVertex centerX centerY hexRadius i))) [1..6]"

definition applyQRShape :: "QROptions \<Rightarrow> real \<Rightarrow> real \<Rightarrow> real \<Rightarrow> ctx2d \<Rightarrow> ctx2d" where
  "applyQRShape options x y sz =
     run ([save, beginPath] @
       (case shape options of
          RoundedShape \<Rightarrow>
            (let radius = sz * 0.1 in [addSeg (RoundRect x y sz sz radius)])
        | Circle \<Rightarrow> [addSeg (Arc (x + sz / 2) (y + sz / 2) (sz / 2) 0 (2 * pi))]
        | Hexagon \<Rightarrow>
            (let centerX = x + sz / 2; centerY = y + sz / 2; hexRadius = sz / 2
             in [addSeg (MoveTo (centerX + hexRadius) centerY),
                 addSegs (hexLines centerX centerY hexRadius),
                 addSeg ClosePath])
        | Square \<Rightarrow> [addSeg (Rect x y sz sz)]) @
       [clip])"

subsection \<open>drawFrame\<close>

text \<open>The four loops of the wavy style, each stepping by 10 along one edge.\<close>

function wavyTop :: "real \<Rightarrow> real \<Rightarrow> real \<Rightarrow> seg list" where
  "wavyTop padding frameWidth x =
     (if x \<le> padding + frameWidth
      then LineTo x (padding + 5 * sin ((x - padding) * 0.1) + 5) #
           wavyTop padding frameWidth (x + 10)
      else [])"
  by pat_completeness auto
termination
  by (relation "measure (\<lambda>(p, w, x). nat (\<lfloor>p + w - x\<rfloor> + 1))") (auto, linarith)

function wavyRight :: "real \<Rightarrow> real \<Rightarrow> real \<Rightarrow> real \<Rightarrow> seg list" where
  "wavyRight padding frameWidth frameHeight y =
     (if y \<le> padding + frameHeight
      then LineTo (padding + frameWidth - 5 * sin ((y - padding) * 0.1) - 5) y #
           wavyRight padding frameWidth frameHeight (y + 10)
      else [])"
  by pat_completeness auto
termination
  by (relation "measure (\<lambda>(p, w, h, y). nat (\<lfloor>p + h - y\<rfloor> + 1))") (auto, linarith)

function wavyBottom :: "real \<Rightarrow> real \<Rightarrow> real \<Rightarrow> seg list" where
  "wavyBottom padding frameHeight x =
     (if x \<ge> padding
      then LineTo x (padding + frameHeight - 5 * sin ((x - padding) * 0.1) - 5) #
           wavyBottom padding frameHeight (x - 10)
      else [])"
  by pat_completeness auto
termination
  by (relation "measure (\<lambda>(p, h, x). nat (\<lfloor>x - p\<rfloor> + 1))") (auto, linarith)

function wavyLeft :: "real \<Rightarrow> real \<Rightarrow> seg list" where
  "wavyLeft padding y =
     (if y \<ge> padding
      then LineTo (padding + 5 * sin ((y - padding) * 0.1) + 5) y #
           wavyLeft padding (y - 10)
      else [])"
  by pat_completeness auto
termination
  by (relation "measure (\<lambda>(p, y). nat (\<lfloor>y - p\<rfloor> + 1))") (auto, linarith)

definition drawFrame :: "QROptions \<Rightarrow> real \<Rightarrow> ctx2d \<Rightarrow> ctx2d" where
  "drawFrame options frameSize =
     (let padding = frameSize * 0.1;
          frameWidth = frameSize - padding * 2;
          frameHeight = frameSize - padding * 2
      in run ([save] @
        (case frameType options of
           Simple \<Rightarrow>
             [set_state (\<lambda>s. s\<lparr>strokeStyle := Color (frameColor options)\<rparr>),
              set_state (\<lambda>s. s\<lparr>lineWidth := 8\<rparr>),
              paint_op FrameLayer (StrokeRect padding padding frameWidth frameHeight)]
         | Rounded \<Rightarrow>
             (let radius = 20 in
              [set_state (\<lambda>s. s\<lparr>strokeStyle := Color (frameColor options)\<rparr>),
               set_state (\<lambda>s. s\<lparr>lineWidth := 8\<rparr>),
               beginPath,
               addSeg (RoundRect padding padding frameWidth frameHeight radius),
               stroke FrameLayer])
         | Gradient \<Rightarrow>
             (let gradient = LinearGradient 0 0 frameSize frameSize
                    [(0, frameColor options), (0.5, backgroundColor options),
                     (1, frameColor options)] in
              [set_state (\<lambda>s. s\<lparr>strokeStyle := gradient\<rparr>),
               set_state (\<lambda>s. s\<lparr>lineWidth := 12\<rparr>),
               paint_op FrameLayer (StrokeRect padding padding frameWidth frameHeight)])
         | Neon \<Rightarrow>
             [set_state (\<lambda>s. s\<lparr>shadowColor := frameColor options\<rparr>),
              set_state (\<lambda>s. s\<lparr>shadowBlur := 20\<rparr>),
              set_state (\<lambda>s. s\<lparr>strokeStyle := Color (frameColor options)\<rparr>),
              set_state (\<lambda>s. s\<lparr>lineWidth := 4\<rparr>),
              paint_op FrameLayer (StrokeRect padding padding frameWidth frameHeight),
              set_state (\<lambda>s. s\<lparr>shadowBlur := 10\<rparr>),
              paint_op FrameLayer
                (StrokeRect (padding + 4) (padding + 4) (frameWidth - 8) (frameHeight - 8))]
         | Vintage \<Rightarrow>
             [set_state (\<lambda>s. s\<lparr>strokeStyle := Color (frameColor options)\<rparr>),
              set_state (\<lambda>s. s\<lparr>lineWidth := 12\<rparr>),
              paint_op FrameLayer (StrokeRect padding padding frameWidth frameHeight),
              set_state (\<lambda>s. s\<lparr>strokeStyle := Color (backgroundColor options)\<rparr>),
              set_state (\<lambda>s. s\<lparr>lineWidth := 4\<rparr>),
              paint_op FrameLayer
                (StrokeRect (padding + 4) (padding + 4) (frameWidth - 8) (frameHeight - 8))]
         | SpeechBubble \<Rightarrow>
             (let bubbleRadius = 20; tailSize = 20 in
              [set_state (\<lambda>s. s\<lparr>fillStyle := Color (frameColor options)\<rparr>),
               beginPath,
               addSeg (RoundRect padding padding frameWidth (frameHeight - tailSize)
                         bubbleRadius),
               fill FrameLayer,
               beginPath,
               addSeg (MoveTo (frameSize / 2 - tailSize / 2)
                         (frameHeight + padding - tailSize)),
               addSeg (LineTo (frameSize / 2) (frameHeight + padding)),
               addSeg (LineTo (frameSize / 2 + tailSize / 2)
                         (frameHeight + padding - tailSize)),
               addSeg ClosePath,
               fill FrameLayer])
         | Wavy \<Rightarrow>
             [set_state (\<lambda>s. s\<lparr>fillStyle := Color (frameColor options)\<rparr>),
              beginPath,
              addSeg (MoveTo padding (padding + 10)),
              addSegs (wavyTop padding frameWidth padding),
              addSegs (wavyRight padding frameWidth frameHeight padding),
              addSegs (wavyBottom padding frameHeight (padding + frameWidth)),
              addSegs (wavyLeft padding (padding + frameHeight)),
              addSeg ClosePath,
              fill FrameLayer]
         | CardStyle \<Rightarrow>
             (let borderWidth = 10 in
              [set_state (\<lambda>s. s\<lparr>fillStyle := Color (frameColor options)\<rparr>),
               set_state (\<lambda>s. s\<lparr>shadowColor := ''rgba(0, 0, 0, 0.3)''\<rparr>),
               set_state (\<lambda>s. s\<lparr>shadowBlur := 10\<rparr>),
               set_state (\<lambda>s. s\<lparr>shadowOffsetX := 3\<rparr>),
               set_state (\<lambda>s. s\<lparr>shadowOffsetY := 3\<rparr>),
               paint_op FrameLayer (FillRect padding padding frameWidth frameHeight),
               set_state (\<lambda>s. s\<lparr>shadowColor := ''transparent''\<rparr>),
               set_state (\<lambda>s. s\<lparr>fillStyle := Color ''#ffffff''\<rparr>),
               paint_op FrameLayer
                 (FillRect (padding + borderWidth) (padding + borderWidth)
                    (frameWidth - borderWidth * 2) (frameHeight - borderWidth * 2))])
         | FNone \<Rightarrow> []) @
        [restore]))"

subsection \<open>The component's state and its environment\<close>

datatype toast = ToastError string | ToastSuccess string

record canvas =
  width :: nat
  height :: nat
  ctx :: ctx2d

record upload =
  file_name :: string
  file_size :: nat

record app =
  options :: QROptions
  qrDataUrl :: string
  logoFile :: "upload option"
  logoDataUrl :: string
  canvasRef :: "canvas option"
  toasts :: "toast list"
  console :: "(string \<times> string) list"

text \<open>The options record handed to the \<open>qrcode\<close> library (lines 207 to 217).\<close>

record qr_lib_options =
  lib_errorCorrectionLevel :: ecLevel
  lib_type :: string
  lib_quality :: real
  lib_margin :: int
  lib_dark :: string
  lib_light :: string
  lib_width :: nat

text \<open>
  What the component does not implement is a parameter: the \<open>qrcode\<close> library's
  \<open>toDataURL\<close> (\<open>Inl\<close> when it throws, \<open>Inr\<close> the data URL), whether the canvas hands
  out a 2D context, whether an image with a given source decodes (its \<open>onload\<close> runs),
  the canvas's PNG serialisation, and the file reader (\<open>None\<close> when it fails, so that its
  \<open>onload\<close> never runs).
\<close>

record browser =
  QRCode_toDataURL :: "string \<Rightarrow> qr_lib_options \<Rightarrow> string + string"
  getContext2d :: bool
  imageLoads :: "string \<Rightarrow> bool"
  canvas_toDataURL :: "canvas \<Rightarrow> string"
  readAsDataURL :: "upload \<Rightarrow> string option"

subsection \<open>generateQR\<close>

definition qrOptions :: "QROptions \<Rightarrow> qr_lib_options" where
  "qrOptions opts =
     \<lparr>lib_errorCorrectionLevel = errorCorrectionLevel opts, lib_type = ''image/png'',
      lib_quality = 0.92, lib_margin = margin opts, lib_dark = foregroundColor opts,
      lib_light = backgroundColor opts, lib_width = qsize opts\<rparr>"

text \<open>Lines 229 to 232. A JavaScript string is truthy when it is not empty.\<close>

definition extraSpace :: "QROptions \<Rightarrow> nat" where
  "extraSpace opts = (if frameType opts \<noteq> FNone then 60 else 0)"

definition textSpace :: "QROptions \<Rightarrow> nat" where
  "textSpace opts = (if bottomText opts \<noteq> [] then 40 else 0)"

definition frameSize :: "QROptions \<Rightarrow> nat" where
  "frameSize opts = qsize opts + extraSpace opts"

definition totalHeight :: "QROptions \<Rightarrow> nat" where
  "totalHeight opts = frameSize opts + textSpace opts"

text \<open>The two tests that guard the calls of \<open>drawFrame\<close>: lines 240 to 241 and 257 to 258.\<close>

definition frameFirst :: "QROptions \<Rightarrow> bool" where
  "frameFirst opts =
     (frameType opts \<noteq> FNone \<and>
      (frameType opts = SpeechBubble \<or> frameType opts = Wavy \<or> frameType opts = CardStyle))"

definition frameAfter :: "QROptions \<Rightarrow> bool" where
  "frameAfter opts =
     (frameType opts \<noteq> FNone \<and>
      \<not> (frameType opts = SpeechBubble \<or> frameType opts = Wavy \<or> frameType opts = CardStyle))"

text \<open>
  Assigning \<open>canvas.width\<close> and \<open>canvas.height\<close> resets the context and empties the bitmap;
  then the canvas is cleared and a background frame drawn (lines 233 to 243).
\<close>

definition startCanvas :: "QROptions \<Rightarrow> canvas \<Rightarrow> canvas" where
  "startCanvas opts cv =
     (let frameSize = frameSize opts; totalHeight = totalHeight opts
      in \<lparr>width = frameSize, height = totalHeight,
          ctx = run ([paint_op ClearLayer (ClearRect 0 0 (real frameSize)
                        (real totalHeight))] @
                     (if frameFirst opts then [drawFrame opts (real frameSize)] else []))
                  fresh_ctx\<rparr>)"

text \<open>
  The caption: the same four statements stand at lines 281 to 284 and at lines 294 to 297.
\<close>

definition bottomTextBlock :: "QROptions \<Rightarrow> (ctx2d \<Rightarrow> ctx2d) list" where
  "bottomTextBlock opts =
     (if bottomText opts \<noteq> [] then
        [set_state (\<lambda>s. s\<lparr>fillStyle := Color (bottomTextColor opts)\<rparr>),
         set_state (\<lambda>s. s\<lparr>font := (bottomTextSize opts, ''Arial'')\<rparr>),
         set_state (\<lambda>s. s\<lparr>textAlign := ''center''\<rparr>),
         paint_op CaptionLayer
           (FillText (bottomText opts) (real (frameSize opts) / 2)
              (real (frameSize opts) + 25))]
      else [])"

text \<open>\<open>logoImg.onload\<close> (lines 265 to 289).\<close>

definition logoImg_onload :: "browser \<Rightarrow> app \<Rightarrow> canvas \<Rightarrow> app" where
  "logoImg_onload env st cv =
     (let opts = options st;
          frameSize = real (frameSize opts);
          logoSize = real (qsize opts) * 0.2;
          logoX = (frameSize - logoSize) / 2;
          logoY = (frameSize - logoSize) / 2;
          cv' = cv\<lparr>ctx := run
                  ([set_state (\<lambda>s. s\<lparr>fillStyle := Color (backgroundColor opts)\<rparr>),
                    beginPath,
                    addSeg (Arc (frameSize / 2) (frameSize / 2) (logoSize / 2 + 5) 0 (2 * pi)),
                    fill LogoDiscLayer,
                    paint_op LogoLayer
                      (DrawImage (LogoImg (logoDataUrl st)) logoX logoY logoSize logoSize)] @
                   bottomTextBlock opts)
                  (ctx cv)\<rparr>
      in st\<lparr>canvasRef := Some cv', qrDataUrl := canvas_toDataURL env cv'\<rparr>)"

text \<open>\<open>qrImg.onload\<close> (lines 247 to 303).\<close>

definition qrImg_onload :: "browser \<Rightarrow> string \<Rightarrow> app \<Rightarrow> canvas \<Rightarrow> app" where
  "qrImg_onload env dataUrl st cv =
     (let opts = options st;
          frameSize = real (frameSize opts);
          qrX = (frameSize - real (qsize opts)) / 2;
          qrY = (frameSize - real (qsize opts)) / 2;
          cv1 = cv\<lparr>ctx := run
                  ([applyQRShape opts qrX qrY (real (qsize opts)),
                    paint_op SymbolLayer
                      (DrawImage (QrImg dataUrl) qrX qrY (real (qsize opts))
                         (real (qsize opts))),
                    restore] @
                   (if frameAfter opts then [drawFrame opts frameSize] else []))
                  (ctx cv)\<rparr>
      in if logoDataUrl st \<noteq> [] then
           (if imageLoads env (logoDataUrl st) then logoImg_onload env st cv1
            else st\<lparr>canvasRef := Some cv1\<rparr>)
         else
           (let cv2 = cv1\<lparr>ctx := run (bottomTextBlock opts) (ctx cv1)\<rparr>
            in st\<lparr>canvasRef := Some cv2, qrDataUrl := canvas_toDataURL env cv2\<rparr>))"

definition generateQR :: "browser \<Rightarrow> app \<Rightarrow> app" where
  "generateQR env st =
     (case QRCode_toDataURL env (qtext (options st)) (qrOptions (options st)) of
        Inl error \<Rightarrow>
          st\<lparr>console := console st @ [(''Error generating QR code:'', error)],
             toasts := toasts st @ [ToastError ''Failed to generate QR code'']\<rparr>
      | Inr dataUrl \<Rightarrow>
          (case canvasRef st of
             None \<Rightarrow> st
           | Some canvas \<Rightarrow>
               if \<not> getContext2d env then st
               else
                 (let cv = startCanvas (options st) canvas
                  in if imageLoads env dataUrl then qrImg_onload env dataUrl st cv
                     else st\<lparr>canvasRef := Some cv\<rparr>)))"

subsection \<open>handleLogoUpload\<close>

definition handleLogoUpload :: "browser \<Rightarrow> upload option \<Rightarrow> app \<Rightarrow> app" where
  "handleLogoUpload env file st =
     (case file of
        None \<Rightarrow> st
      | Some f \<Rightarrow>
          if file_size f > 5 * 1024 * 1024 then
            st\<lparr>toasts := toasts st @ [ToastError ''Logo file size must be less than 5MB'']\<rparr>
          else
            (let st1 = st\<lparr>logoFile := Some f\<rparr>
             in case readAsDataURL env f of
                  None \<Rightarrow> st1
                | Some result \<Rightarrow>
                    st1\<lparr>logoDataUrl := result,
                        toasts := toasts st1 @ [ToastSuccess ''Logo uploaded successfully!'']\<rparr>))"

subsection \<open>The component's initial state (lines 29 to 46)\<close>

definition initialOptions :: QROptions where
  "initialOptions =
     \<lparr>qtext = ''https://lovable.dev'', qsize = 300, foregroundColor = ''#000000'',
      backgroundColor = ''#ffffff'', errorCorrectionLevel = EC_M, margin = 4,
      frameType = FNone, frameColor = ''#6366f1'', shape = Square, bottomText = ''Scan Me'',
      bottomTextColor = ''#000000'', bottomTextSize = 16\<rparr>"

text \<open>A canvas element starts 300 by 150 pixels.\<close>

definition initialApp :: app where
  "initialApp =
     \<lparr>options = initialOptions, qrDataUrl = [], logoFile = None, logoDataUrl = [],
      canvasRef = Some \<lparr>width = 300, height = 150, ctx = fresh_ctx\<rparr>,
      toasts = [], console = []\<rparr>"

text \<open>An environment in which every external step succeeds, for concrete runs.\<close>

definition okBrowser :: browser where
  "okBrowser =
     \<lparr>QRCode_toDataURL = (\<lambda>t q. Inr ''data:image/png;base64,QR''),
      getContext2d = True,
      imageLoads = (\<lambda>src. True),
      canvas_toDataURL = (\<lambda>cv. ''data:image/png;base64,CANVAS''),
      readAsDataURL = (\<lambda>f. Some ''data:image/png;base64,LOGO'')\<rparr>"

text \<open>An environment whose encoder rejects every payload.\<close>

definition failingBrowser :: browser where
  "failingBrowser =
     okBrowser\<lparr>QRCode_toDataURL :=
       (\<lambda>t q. Inl ''The amount of data is too big to be stored in a QR Code'')\<rparr>"

section \<open>Observations on a render\<close>

text \<open>
  A render reaches compositing when the encoder returns a data URL and the canvas and its
  context are there; it completes when, moreover, the symbol image decodes and so does the
  logo, when there is one. The definitions from \<open>clearDraw\<close> to \<open>expectedLog\<close> write out
  the draws that a completed render is proved to issue (lemma \<open>render_log\<close>), so that
  the theorems can name them; \<open>shapePath\<close> is the path \<open>applyQRShape\<close> clips to.
\<close>

definition shapePath :: "QROptions \<Rightarrow> real \<Rightarrow> real \<Rightarrow> real \<Rightarrow> seg list" where
  "shapePath opts x y sz = path (applyQRShape opts x y sz fresh_ctx)"

definition composes :: "browser \<Rightarrow> app \<Rightarrow> string \<Rightarrow> bool" where
  "composes env st dataUrl =
     (QRCode_toDataURL env (qtext (options st)) (qrOptions (options st)) = Inr dataUrl \<and>
      canvasRef st \<noteq> None \<and> getContext2d env)"

definition completes :: "browser \<Rightarrow> app \<Rightarrow> string \<Rightarrow> bool" where
  "completes env st dataUrl =
     (composes env st dataUrl \<and> imageLoads env dataUrl \<and>
      (logoDataUrl st = [] \<or> imageLoads env (logoDataUrl st)))"

definition canvasLog :: "app \<Rightarrow> draw list" where
  "canvasLog st = (case canvasRef st of None \<Rightarrow> [] | Some cv \<Rightarrow> drawn (ctx cv))"

definition clearDraw :: "QROptions \<Rightarrow> draw" where
  "clearDraw opts =
     \<lparr>d_layer = ClearLayer,
      d_op = ClearRect 0 0 (real (frameSize opts)) (real (totalHeight opts)),
      d_state = default_state\<rparr>"

definition frameDraws :: "QROptions \<Rightarrow> draw list" where
  "frameDraws opts = drawn (drawFrame opts (real (frameSize opts)) fresh_ctx)"

definition qrX :: "QROptions \<Rightarrow> real" where
  "qrX opts = (real (frameSize opts) - real (qsize opts)) / 2"

definition symbolDraw :: "QROptions \<Rightarrow> string \<Rightarrow> draw" where
  "symbolDraw opts dataUrl =
     \<lparr>d_layer = SymbolLayer,
      d_op = DrawImage (QrImg dataUrl) (qrX opts) (qrX opts) (real (qsize opts))
               (real (qsize opts)),
      d_state = default_state\<lparr>clipPaths :=
        [shapePath opts (qrX opts) (qrX opts) (real (qsize opts))]\<rparr>\<rparr>"

definition logoDraws :: "QROptions \<Rightarrow> string \<Rightarrow> draw list" where
  "logoDraws opts logo =
     (if logo \<noteq> [] then
        [\<lparr>d_layer = LogoDiscLayer,
          d_op = Fill [Arc (real (frameSize opts) / 2) (real (frameSize opts) / 2)
                        (real (qsize opts) * 0.2 / 2 + 5) 0 (2 * pi)],
          d_state = default_state\<lparr>fillStyle := Color (backgroundColor opts)\<rparr>\<rparr>,
         \<lparr>d_layer = LogoLayer,
          d_op = DrawImage (LogoImg logo)
                   ((real (frameSize opts) - real (qsize opts) * 0.2) / 2)
                   ((real (frameSize opts) - real (qsize opts) * 0.2) / 2)
                   (real (qsize opts) * 0.2) (real (qsize opts) * 0.2),
          d_state = default_state\<lparr>fillStyle := Color (backgroundColor opts)\<rparr>\<rparr>]
      else [])"

definition captionDraws :: "QROptions \<Rightarrow> draw list" where
  "captionDraws opts =
     (if bottomText opts \<noteq> [] then
        [\<lparr>d_layer = CaptionLayer,
          d_op = FillText (bottomText opts) (real (frameSize opts) / 2)
                   (real (frameSize opts) + 25),
          d_state = default_state\<lparr>fillStyle := Color (bottomTextColor opts),
                                  font := (bottomTextSize opts, ''Arial''),
                                  textAlign := ''center''\<rparr>\<rparr>]
      else [])"

definition expectedLog :: "QROptions \<Rightarrow> string \<Rightarrow> string \<Rightarrow> draw list" where
  "expectedLog opts dataUrl logo =
     clearDraw opts # (if frameFirst opts then frameDraws opts else []) @
     symbolDraw opts dataUrl # (if frameAfter opts then frameDraws opts else []) @
     logoDraws opts logo @ captionDraws opts"

text \<open>Concrete renders: the initial state with a frame, a shape, a caption and a logo chosen.\<close>

definition qrUrl :: string where
  "qrUrl = ''data:image/png;base64,QR''"

definition demoApp :: "frameType \<Rightarrow> shape \<Rightarrow> string \<Rightarrow> string \<Rightarrow> app" where
  "demoApp ft sh txt logo =
     initialApp\<lparr>options := initialOptions\<lparr>frameType := ft, shape := sh, bottomText := txt\<rparr>,
                logoDataUrl := logo\<rparr>"

definition canvasWidth :: "app \<Rightarrow> nat" where
  "canvasWidth st = (case canvasRef st of None \<Rightarrow> 0 | Some cv \<Rightarrow> width cv)"

definition canvasHeight :: "app \<Rightarrow> nat" where
  "canvasHeight st = (case canvasRef st of None \<Rightarrow> 0 | Some cv \<Rightarrow> height cv)"

text \<open>
  The draws of one layer, and the draws issued before and after the first draw of a layer.
  On a canvas a later draw paints over an earlier one.
\<close>

definition layerDraws :: "layer \<Rightarrow> draw list \<Rightarrow> draw list" where
  "layerDraws l ds = filter (\<lambda>d. d_layer d = l) ds"

definition beforeFirst :: "layer \<Rightarrow> draw list \<Rightarrow> draw list" where
  "beforeFirst l ds = takeWhile (\<lambda>d. d_layer d \<noteq> l) ds"

definition afterFirst :: "layer \<Rightarrow> draw list \<Rightarrow> draw list" where
  "afterFirst l ds = tl (dropWhile (\<lambda>d. d_layer d \<noteq> l) ds)"

section \<open>Where a draw paints\<close>

text \<open>
  The claims on pixels need the area of a few operations of the canvas: a rectangle (a
  negative width or height extends the other way), a full circle, a rectangle with rounded
  corners, a closed convex outline (the side of every edge is the same), and the band a
  stroked rectangle of non-negative width and height covers with mitred corners: half the
  line width to either side of the outline. \<open>inside\<close> gives the region of the four
  outlines that \<open>applyQRShape\<close> builds; an empty path encloses nothing.
\<close>

definition in_rect :: "real \<Rightarrow> real \<Rightarrow> real \<Rightarrow> real \<Rightarrow> point \<Rightarrow> bool" where
  "in_rect x y w h p =
     (min x (x + w) \<le> fst p \<and> fst p \<le> max x (x + w) \<and>
      min y (y + h) \<le> snd p \<and> snd p \<le> max y (y + h))"

definition in_rect_open :: "real \<Rightarrow> real \<Rightarrow> real \<Rightarrow> real \<Rightarrow> point \<Rightarrow> bool" where
  "in_rect_open x y w h p =
     (min x (x + w) < fst p \<and> fst p < max x (x + w) \<and>
      min y (y + h) < snd p \<and> snd p < max y (y + h))"

definition in_disc :: "real \<Rightarrow> real \<Rightarrow> real \<Rightarrow> point \<Rightarrow> bool" where
  "in_disc cx cy r p = ((fst p - cx)\<^sup>2 + (snd p - cy)\<^sup>2 \<le> r\<^sup>2)"

definition in_round_rect :: "real \<Rightarrow> real \<Rightarrow> real \<Rightarrow> real \<Rightarrow> real \<Rightarrow> point \<Rightarrow> bool" where
  "in_round_rect x y w h r p =
     (let dx = max 0 (\<bar>fst p - (x + w / 2)\<bar> - (w / 2 - r));
          dy = max 0 (\<bar>snd p - (y + h / 2)\<bar> - (h / 2 - r))
      in in_rect x y w h p \<and> dx\<^sup>2 + dy\<^sup>2 \<le> r\<^sup>2)"

definition cross :: "point \<Rightarrow> point \<Rightarrow> point \<Rightarrow> real" where
  "cross a b p = (fst b - fst a) * (snd p - snd a) - (snd b - snd a) * (fst p - fst a)"

definition closedEdges :: "point list \<Rightarrow> (point \<times> point) list" where
  "closedEdges vs = zip vs (tl vs @ take 1 vs)"

definition in_convex :: "point list \<Rightarrow> point \<Rightarrow> bool" where
  "in_convex vs p =
     (vs \<noteq> [] \<and>
      (list_all (\<lambda>(a, b). 0 \<le> cross a b p) (closedEdges vs) \<or>
       list_all (\<lambda>(a, b). cross a b p \<le> 0) (closedEdges vs)))"

fun lineToPoints :: "seg list \<Rightarrow> point list" where
  "lineToPoints [] = []"
| "lineToPoints (LineTo x y # ss) = (x, y) # lineToPoints ss"
| "lineToPoints (s # ss) = lineToPoints ss"

fun inside :: "seg list \<Rightarrow> point \<Rightarrow> bool" where
  "inside [Rect x y w h] p = in_rect x y w h p"
| "inside [RoundRect x y w h r] p = in_round_rect x y w h r p"
| "inside [Arc cx cy r a0 a1] p = (2 * pi \<le> \<bar>a1 - a0\<bar> \<and> in_disc cx cy r p)"
| "inside (MoveTo x y # ss) p = in_convex ((x, y) # lineToPoints ss) p"
| "inside ss p = False"

definition clipped :: "ctx_state \<Rightarrow> point \<Rightarrow> bool" where
  "clipped s p = list_all (\<lambda>cp. inside cp p) (clipPaths s)"

text \<open>The points an image draw reaches, and the points a stroked rectangle reaches.\<close>

definition imagePixel :: "draw \<Rightarrow> point \<Rightarrow> bool" where
  "imagePixel d p =
     (case d_op d of
        DrawImage img x y w h \<Rightarrow> in_rect x y w h p \<and> clipped (d_state d) p
      | _ \<Rightarrow> False)"

definition strokeRectPixel :: "draw \<Rightarrow> point \<Rightarrow> bool" where
  "strokeRectPixel d p =
     (case d_op d of
        StrokeRect x y w h \<Rightarrow>
          (let lw = lineWidth (d_state d)
           in in_rect (x - lw / 2) (y - lw / 2) (w + lw) (h + lw) p \<and>
              \<not> (lw < w \<and> lw < h \<and>
                 in_rect_open (x + lw / 2) (y + lw / 2) (w - lw) (h - lw) p) \<and>
              clipped (d_state d) p)
      | _ \<Rightarrow> False)"

text \<open>
  The convex hull of a list of points: the points that are a weighted mean of them, with
  weights that are not negative and add up to 1.
\<close>

definition in_hull :: "point list \<Rightarrow> point \<Rightarrow> bool" where
  "in_hull vs p =
     (\<exists>ws. length ws = length vs \<and> list_all (\<lambda>w. 0 \<le> w) ws \<and> sum_list ws = 1 \<and>
           fst p = sum_list (map2 (\<lambda>w v. w * fst v) ws vs) \<and>
           snd p = sum_list (map2 (\<lambda>w v. w * snd v) ws vs))"

section \<open>Basic facts\<close>

lemmas ctx_ops = save_def restore_def beginPath_def addSeg_def addSegs_def clip_def
  set_state_def paint_op_def stroke_def fill_def

lemma run_Nil: "run [] c = c"
  by (simp add: run_def)

lemma run_Cons: "run (f # fs) c = run fs (f c)"
  by (simp add: run_def)

lemma run_append: "run (a @ b) c = run b (run a c)"
  by (simp add: run_def)

lemma drawFrame_cur: "cur (drawFrame opts fs c) = cur c"
  by (cases "frameType opts") (simp_all add: drawFrame_def Let_def run_Cons run_Nil ctx_ops)

lemma drawFrame_stack: "stack (drawFrame opts fs c) = stack c"
  by (cases "frameType opts") (simp_all add: drawFrame_def Let_def run_Cons run_Nil ctx_ops)

lemma drawFrame_drawn:
  "drawn (drawFrame opts fs c) = drawn c @ drawn (drawFrame opts fs (c\<lparr>drawn := []\<rparr>))"
  by (cases "frameType opts") (simp_all add: drawFrame_def Let_def run_Cons run_Nil ctx_ops)

lemma drawFrame_drawn_cur:
  "cur c = cur c' \<Longrightarrow>
   drawn (drawFrame opts fs (c\<lparr>drawn := []\<rparr>)) = drawn (drawFrame opts fs (c'\<lparr>drawn := []\<rparr>))"
  by (cases "frameType opts") (simp_all add: drawFrame_def Let_def run_Cons run_Nil ctx_ops)

lemma drawFrame_layers:
  "d \<in> set (drawn (drawFrame opts fs (c\<lparr>drawn := []\<rparr>))) \<Longrightarrow> d_layer d = FrameLayer"
  by (cases "frameType opts") (auto simp add: drawFrame_def Let_def run_Cons run_Nil ctx_ops)

lemma drawFrame_nonempty:
  "(drawn (drawFrame opts fs (c\<lparr>drawn := []\<rparr>)) = []) = (frameType opts = FNone)"
  by (cases "frameType opts") (simp_all add: drawFrame_def Let_def run_Cons run_Nil ctx_ops)

lemma applyQRShape_path: "path (applyQRShape opts x y sz c) = shapePath opts x y sz"
  by (cases "shape opts") (simp_all add: shapePath_def applyQRShape_def Let_def run_Cons run_Nil ctx_ops fresh_ctx_def)

lemma applyQRShape_cur:
  "cur (applyQRShape opts x y sz c) = (cur c)\<lparr>clipPaths := clipPaths (cur c) @ [shapePath opts x y sz]\<rparr>"
  by (cases "shape opts") (simp_all add: shapePath_def applyQRShape_def Let_def run_Cons run_Nil ctx_ops fresh_ctx_def)

lemma applyQRShape_stack: "stack (applyQRShape opts x y sz c) = cur c # stack c"
  by (cases "shape opts") (simp_all add: applyQRShape_def Let_def run_Cons run_Nil ctx_ops)

lemma applyQRShape_drawn: "drawn (applyQRShape opts x y sz c) = drawn c"
  by (cases "shape opts") (simp_all add: applyQRShape_def Let_def run_Cons run_Nil ctx_ops)

lemma startCanvas_ctx:
  "cur (ctx (startCanvas opts cv)) = default_state \<and>
   stack (ctx (startCanvas opts cv)) = [] \<and>
   drawn (ctx (startCanvas opts cv)) =
     clearDraw opts # (if frameFirst opts then frameDraws opts else [])"
proof -
  let ?c = "paint_op ClearLayer (ClearRect 0 0 (real (frameSize opts))
              (real (totalHeight opts))) fresh_ctx"
  have c: "cur ?c = default_state" "stack ?c = []" "drawn ?c = [clearDraw opts]"
    by (simp_all add: paint_op_def fresh_ctx_def clearDraw_def)
  have d: "drawn (drawFrame opts (real (frameSize opts)) ?c) =
             clearDraw opts # frameDraws opts"
    unfolding frameDraws_def
    using drawFrame_drawn [of opts "real (frameSize opts)" ?c]
      drawFrame_drawn [of opts "real (frameSize opts)" fresh_ctx]
      drawFrame_drawn_cur [of ?c fresh_ctx opts "real (frameSize opts)"] c
    by (simp add: fresh_ctx_def)
  show ?thesis
    using c d by (simp add: startCanvas_def Let_def run_Cons run_Nil drawFrame_cur drawFrame_stack)
qed

lemma startCanvas_dims:
  "width (startCanvas opts cv) = frameSize opts \<and> height (startCanvas opts cv) = totalHeight opts"
  by (simp add: startCanvas_def Let_def)

lemma default_state_clip: "clipPaths default_state = []"
  by (simp add: default_state_def)

lemma symbol_stage:
  fixes opts :: QROptions and c :: ctx2d and dataUrl :: string
  assumes "cur c = default_state" "stack c = []"
  defines "fs \<equiv> real (frameSize opts)"
  defines "c' \<equiv> run ([applyQRShape opts ((fs - real (qsize opts)) / 2)
                        ((fs - real (qsize opts)) / 2) (real (qsize opts)),
                      paint_op SymbolLayer
                        (DrawImage (QrImg dataUrl) ((fs - real (qsize opts)) / 2)
                           ((fs - real (qsize opts)) / 2) (real (qsize opts))
                           (real (qsize opts))),
                      restore] @
                     (if frameAfter opts then [drawFrame opts fs] else [])) c"
  shows "cur c' = default_state \<and> stack c' = [] \<and>
         drawn c' = drawn c @ symbolDraw opts dataUrl #
                      (if frameAfter opts then frameDraws opts else [])"
proof -
  let ?x = "(fs - real (qsize opts)) / 2"
  let ?s = "real (qsize opts)"
  let ?c1 = "restore (paint_op SymbolLayer (DrawImage (QrImg dataUrl) ?x ?x ?s ?s)
               (applyQRShape opts ?x ?x ?s c))"
  have c1: "cur ?c1 = default_state" "stack ?c1 = []"
    "drawn ?c1 = drawn c @ [symbolDraw opts dataUrl]"
    using assms(1,2)
    by (simp_all add: restore_def paint_op_def applyQRShape_stack applyQRShape_cur
        applyQRShape_drawn symbolDraw_def qrX_def fs_def default_state_clip)
  have d: "drawn (drawFrame opts fs ?c1) = drawn ?c1 @ frameDraws opts"
    unfolding frameDraws_def fs_def
    using drawFrame_drawn [of opts "real (frameSize opts)" ?c1]
      drawFrame_drawn_cur [of ?c1 fresh_ctx opts "real (frameSize opts)"] c1(1)
    by (simp add: fresh_ctx_def fs_def)
  show ?thesis
    using c1 d unfolding c'_def
    by (simp add: run_Cons run_Nil drawFrame_cur drawFrame_stack)
qed

lemma caption_stage:
  assumes "cur c = default_state\<lparr>fillStyle := f\<rparr>"
  shows "drawn (run (bottomTextBlock opts) c) = drawn c @ captionDraws opts"
  using assms
  by (simp add: bottomTextBlock_def captionDraws_def run_Cons run_Nil ctx_ops default_state_def)

lemma caption_stage0:
  assumes "cur c = default_state"
  shows "drawn (run (bottomTextBlock opts) c) = drawn c @ captionDraws opts"
  using assms
  by (simp add: bottomTextBlock_def captionDraws_def run_Cons run_Nil ctx_ops default_state_def)

lemma logo_stage:
  fixes opts :: QROptions and c :: ctx2d and logo :: string
  assumes "cur c = default_state" "logo \<noteq> []"
  defines "fs \<equiv> real (frameSize opts)"
  defines "ls \<equiv> real (qsize opts) * 0.2"
  shows "drawn (run ([set_state (\<lambda>s. s\<lparr>fillStyle := Color (backgroundColor opts)\<rparr>),
                      beginPath,
                      addSeg (Arc (fs / 2) (fs / 2) (ls / 2 + 5) 0 (2 * pi)),
                      fill LogoDiscLayer,
                      paint_op LogoLayer (DrawImage (LogoImg logo) ((fs - ls) / 2) ((fs - ls) / 2) ls ls)] @
                     bottomTextBlock opts) c) =
         drawn c @ logoDraws opts logo @ captionDraws opts"
proof -
  let ?c1 = "run [set_state (\<lambda>s. s\<lparr>fillStyle := Color (backgroundColor opts)\<rparr>),
                      beginPath,
                      addSeg (Arc (fs / 2) (fs / 2) (ls / 2 + 5) 0 (2 * pi)),
                      fill LogoDiscLayer,
                      paint_op LogoLayer (DrawImage (LogoImg logo) ((fs - ls) / 2) ((fs - ls) / 2) ls ls)] c"
  have c1: "cur ?c1 = default_state\<lparr>fillStyle := Color (backgroundColor opts)\<rparr>"
    "drawn ?c1 = drawn c @ logoDraws opts logo"
    using assms(1,2) by (simp_all add: run_Cons run_Nil ctx_ops logoDraws_def fs_def ls_def)
  have "run ([set_state (\<lambda>s. s\<lparr>fillStyle := Color (backgroundColor opts)\<rparr>),
                      beginPath,
                      addSeg (Arc (fs / 2) (fs / 2) (ls / 2 + 5) 0 (2 * pi)),
                      fill LogoDiscLayer,
                      paint_op LogoLayer (DrawImage (LogoImg logo) ((fs - ls) / 2) ((fs - ls) / 2) ls ls)] @
                     bottomTextBlock opts) c = run (bottomTextBlock opts) ?c1"
    by (simp only: run_append)
  then show ?thesis
    using caption_stage [OF c1(1), of opts] c1(2) by simp
qed

lemma render_result:
  assumes "completes env st dataUrl"
  shows "\<exists>cv. canvasRef (generateQR env st) = Some cv \<and>
           width cv = frameSize (options st) \<and> height cv = totalHeight (options st) \<and>
           drawn (ctx cv) = expectedLog (options st) dataUrl (logoDataUrl st) \<and>
           qrDataUrl (generateQR env st) = canvas_toDataURL env cv"
proof -
  from assms obtain cv0 where h:
    "QRCode_toDataURL env (qtext (options st)) (qrOptions (options st)) = Inr dataUrl"
    "canvasRef st = Some cv0" "getContext2d env" "imageLoads env dataUrl"
    "logoDataUrl st = [] \<or> imageLoads env (logoDataUrl st)"
    by (auto simp add: completes_def composes_def)
  let ?opts = "options st"
  let ?cv = "startCanvas ?opts cv0"
  have g: "generateQR env st = qrImg_onload env dataUrl st ?cv"
    using h by (simp add: generateQR_def Let_def)
  note s0 = startCanvas_ctx [of ?opts cv0] startCanvas_dims [of ?opts cv0]
  note s1 = symbol_stage [of "ctx ?cv" ?opts dataUrl]
  show ?thesis
  proof (cases "logoDataUrl st = []")
    case True
    then show ?thesis
      unfolding g qrImg_onload_def Let_def
      using s0 s1 caption_stage0 [of _ ?opts]
      by (simp add: expectedLog_def logoDraws_def)
  next
    case False
    then have l: "imageLoads env (logoDataUrl st)" using h(5) by simp
    show ?thesis
      unfolding g qrImg_onload_def logoImg_onload_def Let_def
      using False l s0 s1 logo_stage [of _ "logoDataUrl st" ?opts]
      by (simp add: expectedLog_def)
  qed
qed

lemma fresh_ctx_drawn: "fresh_ctx\<lparr>drawn := []\<rparr> = fresh_ctx"
  by (simp add: fresh_ctx_def)

lemma frameDraws_layer: "d \<in> set (frameDraws opts) \<Longrightarrow> d_layer d = FrameLayer"
  using drawFrame_layers [of d opts "real (frameSize opts)" fresh_ctx]
  by (simp add: frameDraws_def fresh_ctx_drawn)

lemma frameDraws_empty: "(frameDraws opts = []) = (frameType opts = FNone)"
  using drawFrame_nonempty [of opts "real (frameSize opts)" fresh_ctx]
  by (simp add: frameDraws_def fresh_ctx_drawn)

lemma render_log:
  assumes "completes env st dataUrl"
  shows "canvasLog (generateQR env st) = expectedLog (options st) dataUrl (logoDataUrl st)"
  using render_result [OF assms] by (auto simp add: canvasLog_def)

lemma expectedLog_nonframe:
  assumes "d \<in> set (expectedLog opts dataUrl logo)" "d_layer d \<noteq> FrameLayer"
  shows "d = clearDraw opts \<or> d = symbolDraw opts dataUrl \<or> d \<in> set (logoDraws opts logo) \<or>
         d \<in> set (captionDraws opts)"
  using assms frameDraws_layer [of d opts]
  by (auto simp add: expectedLog_def split: if_splits)

lemma completes_demo: "completes okBrowser (demoApp ft sh txt logo) qrUrl"
  by (simp add: completes_def composes_def okBrowser_def demoApp_def initialApp_def qrUrl_def)

lemma options_demo:
  "options (demoApp ft sh txt logo) =
     initialOptions\<lparr>frameType := ft, shape := sh, bottomText := txt\<rparr>"
  "logoDataUrl (demoApp ft sh txt logo) = logo"
  by (simp_all add: demoApp_def initialApp_def)

lemma composes_canvas:
  assumes "composes env st dataUrl"
  shows "\<exists>cv. canvasRef (generateQR env st) = Some cv \<and>
           width cv = frameSize (options st) \<and> height cv = totalHeight (options st)"
proof -
  from assms obtain cv0 where h:
    "QRCode_toDataURL env (qtext (options st)) (qrOptions (options st)) = Inr dataUrl"
    "canvasRef st = Some cv0" "getContext2d env"
    by (auto simp add: composes_def)
  show ?thesis
    using h startCanvas_dims [of "options st" cv0]
    by (simp add: generateQR_def qrImg_onload_def logoImg_onload_def Let_def)
qed

lemma composes_demo: "composes okBrowser (demoApp ft sh txt logo) qrUrl"
  using completes_demo by (simp add: completes_def)

lemma render_dims:
  assumes "completes env st dataUrl"
  shows "canvasWidth (generateQR env st) = frameSize (options st)"
    "canvasHeight (generateQR env st) = totalHeight (options st)"
  using render_result [OF assms] by (auto simp add: canvasWidth_def canvasHeight_def)

lemma drawFrame_clip:
  "d \<in> set (drawn (drawFrame opts fs (c\<lparr>drawn := []\<rparr>))) \<Longrightarrow>
   clipPaths (d_state d) = clipPaths (cur c)"
  by (cases "frameType opts") (auto simp add: drawFrame_def Let_def run_Cons run_Nil ctx_ops)

lemma frameDraws_clip: "d \<in> set (frameDraws opts) \<Longrightarrow> clipPaths (d_state d) = []"
  using drawFrame_clip [of d opts "real (frameSize opts)" fresh_ctx]
  by (simp add: frameDraws_def fresh_ctx_drawn) (simp add: fresh_ctx_def default_state_def)

lemma logoDraws_layer:
  "d \<in> set (logoDraws opts logo) \<Longrightarrow> d_layer d = LogoDiscLayer \<or> d_layer d = LogoLayer"
  by (auto simp add: logoDraws_def split: if_splits)

lemma captionDraws_layer: "d \<in> set (captionDraws opts) \<Longrightarrow> d_layer d = CaptionLayer"
  by (auto simp add: captionDraws_def split: if_splits)

lemma symbolDraw_layer: "d_layer (symbolDraw opts dataUrl) = SymbolLayer"
  by (simp add: symbolDraw_def)

lemma clearDraw_layer: "d_layer (clearDraw opts) = ClearLayer"
  by (simp add: clearDraw_def)

lemma filter_none: "(\<And>x. x \<in> set xs \<Longrightarrow> \<not> P x) \<Longrightarrow> filter P xs = []"
  by (induction xs) auto

lemma filter_all: "(\<And>x. x \<in> set xs \<Longrightarrow> P x) \<Longrightarrow> filter P xs = xs"
  by (induction xs) auto

lemma layerDraws_frame [simp]:
  "layerDraws l (frameDraws opts) = (if l = FrameLayer then frameDraws opts else [])"
  unfolding layerDraws_def
  using frameDraws_layer [of _ opts]
  by (auto intro!: filter_none filter_all)

lemma layerDraws_append: "layerDraws l (xs @ ys) = layerDraws l xs @ layerDraws l ys"
  by (simp add: layerDraws_def)

lemma layerDraws_Cons:
  "layerDraws l (x # xs) = (if d_layer x = l then x # layerDraws l xs else layerDraws l xs)"
  by (simp add: layerDraws_def)

lemma layerDraws_Nil: "layerDraws l [] = []"
  by (simp add: layerDraws_def)

lemma before_symbol:
  "beforeFirst SymbolLayer (expectedLog opts dataUrl logo) =
     clearDraw opts # (if frameFirst opts then frameDraws opts else [])"
proof -
  have "takeWhile (\<lambda>d. d_layer d \<noteq> SymbolLayer)
          ((if frameFirst opts then frameDraws opts else []) @
           symbolDraw opts dataUrl # rest) =
        (if frameFirst opts then frameDraws opts else [])" for rest
    using frameDraws_layer [of _ opts]
    by (subst takeWhile_append2) (auto simp add: symbolDraw_layer split: if_splits)
  then show ?thesis
    by (simp add: beforeFirst_def expectedLog_def clearDraw_layer)
qed

lemma after_symbol:
  "afterFirst SymbolLayer (expectedLog opts dataUrl logo) =
     (if frameAfter opts then frameDraws opts else []) @ logoDraws opts logo @ captionDraws opts"
proof -
  have "dropWhile (\<lambda>d. d_layer d \<noteq> SymbolLayer)
          ((if frameFirst opts then frameDraws opts else []) @
           symbolDraw opts dataUrl # rest) =
        symbolDraw opts dataUrl # rest" for rest
    using frameDraws_layer [of _ opts]
    by (subst dropWhile_append2) (auto simp add: symbolDraw_layer split: if_splits)
  then show ?thesis
    by (simp add: afterFirst_def expectedLog_def clearDraw_layer)
qed

lemma layerDraws_expected:
  "layerDraws FrameLayer (expectedLog opts dataUrl logo) =
     (if frameFirst opts then frameDraws opts else []) @
     (if frameAfter opts then frameDraws opts else [])"
  "layerDraws SymbolLayer (expectedLog opts dataUrl logo) = [symbolDraw opts dataUrl]"
  "layerDraws CaptionLayer (expectedLog opts dataUrl logo) = captionDraws opts"
  "layerDraws LogoDiscLayer (expectedLog opts dataUrl logo) = layerDraws LogoDiscLayer (logoDraws opts logo)"
  by (simp_all add: expectedLog_def layerDraws_append layerDraws_Cons layerDraws_Nil
      clearDraw_layer symbolDraw_layer)
     (simp_all add: layerDraws_def logoDraws_def captionDraws_def)

lemma frameFirst_iff:
  "frameFirst opts = (frameType opts \<in> {SpeechBubble, Wavy, CardStyle})"
  by (auto simp add: frameFirst_def)

lemma frameAfter_iff:
  "frameAfter opts = (frameType opts \<in> {Simple, Rounded, Gradient, Neon, Vintage})"
  by (cases "frameType opts") (simp_all add: frameAfter_def)

lemma last_frameDraws:
  "frameType opts \<noteq> FNone \<Longrightarrow> d_layer (last (frameDraws opts)) = FrameLayer"
  using frameDraws_layer [of "last (frameDraws opts)" opts] frameDraws_empty [of opts]
  by simp

lemma expectedLog_caption:
  assumes "bottomText opts \<noteq> []"
  shows "expectedLog opts dataUrl logo =
           (clearDraw opts # (if frameFirst opts then frameDraws opts else []) @
            symbolDraw opts dataUrl # (if frameAfter opts then frameDraws opts else []) @
            logoDraws opts logo) @ captionDraws opts"
    "captionDraws opts =
       [\<lparr>d_layer = CaptionLayer,
         d_op = FillText (bottomText opts) (real (frameSize opts) / 2)
                  (real (frameSize opts) + 25),
         d_state = default_state\<lparr>fillStyle := Color (bottomTextColor opts),
                                 font := (bottomTextSize opts, ''Arial''),
                                 textAlign := ''center''\<rparr>\<rparr>]"
  using assms by (simp_all add: expectedLog_def captionDraws_def)

lemma last_before_caption:
  "d_layer (last (clearDraw opts # (if frameFirst opts then frameDraws opts else []) @
            symbolDraw opts dataUrl # (if frameAfter opts then frameDraws opts else []) @
            logoDraws opts logo)) =
     (if logo \<noteq> [] then LogoLayer else if frameAfter opts then FrameLayer else SymbolLayer)"
proof (cases "logo \<noteq> []")
  case True
  then show ?thesis by (simp add: logoDraws_def)
next
  case False
  then have l: "logoDraws opts logo = []" by (simp add: logoDraws_def)
  show ?thesis
  proof (cases "frameAfter opts")
    case True
    then have "frameType opts \<noteq> FNone" by (simp add: frameAfter_def)
    then show ?thesis
      using True False l last_frameDraws [of opts] frameDraws_empty [of opts] by simp
  next
    case False
    then show ?thesis using l \<open>\<not> logo \<noteq> []\<close> by (simp add: symbolDraw_layer)
  qed
qed

lemma logoDisc_expected:
  assumes "logo \<noteq> []"
  shows "layerDraws LogoDiscLayer (expectedLog opts dataUrl logo) =
           [\<lparr>d_layer = LogoDiscLayer,
             d_op = Fill [Arc (real (frameSize opts) / 2) (real (frameSize opts) / 2)
                            (real (qsize opts) * 0.2 / 2 + 5) 0 (2 * pi)],
             d_state = default_state\<lparr>fillStyle := Color (backgroundColor opts)\<rparr>\<rparr>]"
  unfolding layerDraws_expected(4)
  using assms by (simp add: layerDraws_def logoDraws_def)

section \<open>The hexagon\<close>

text \<open>
  The six points the loop of \<open>applyQRShape\<close> computes are the corners of a regular hexagon
  around the centre of the region, and the region the outline encloses lies in their convex
  hull: the middle strip of the hexagon is a mean of the four corners above and below it,
  and each side piece a mean of the three corners of its triangle.
\<close>

lemma upto_1_6: "[1..6] = [1, 2, 3, 4, 5, (6::int)]"
  by code_simp

lemma hex_angles:
  "cos (2 * pi / 3) = - 1 / 2" "sin (2 * pi / 3) = sqrt 3 / 2"
  "cos (4 * pi / 3) = - 1 / 2" "sin (4 * pi / 3) = - sqrt 3 / 2"
  "cos (5 * pi / 3) = 1 / 2" "sin (5 * pi / 3) = - sqrt 3 / 2"
  "cos (6 * pi / 3) = 1" "sin (6 * pi / 3) = 0"
proof -
  have a: "2 * pi / 3 = pi - pi / 3" "4 * pi / 3 = pi / 3 + pi" "5 * pi / 3 = 2 * pi - pi / 3"
    "6 * pi / 3 = 2 * pi"
    by simp_all
  have "cos (2 * pi / 3) = cos (pi - pi / 3)" "sin (2 * pi / 3) = sin (pi - pi / 3)"
    by (simp_all only: a(1))
  then show "cos (2 * pi / 3) = - 1 / 2" "sin (2 * pi / 3) = sqrt 3 / 2"
    by (simp_all only: cos_pi_minus sin_pi_minus cos_60 sin_60 minus_divide_left)
  have "cos (4 * pi / 3) = cos (pi / 3 + pi)" "sin (4 * pi / 3) = sin (pi / 3 + pi)"
    by (simp_all only: a(2))
  then show "cos (4 * pi / 3) = - 1 / 2" "sin (4 * pi / 3) = - sqrt 3 / 2"
    by (simp_all only: cos_periodic_pi sin_periodic_pi cos_60 sin_60 minus_divide_left)
  have "cos (5 * pi / 3) = cos (2 * pi - pi / 3)" "sin (5 * pi / 3) = sin (2 * pi - pi / 3)"
    by (simp_all only: a(3))
  then show "cos (5 * pi / 3) = 1 / 2" "sin (5 * pi / 3) = - sqrt 3 / 2"
    by (simp_all only: cos_2pi_minus sin_2pi_minus cos_60 sin_60 minus_divide_left)
  have "cos (6 * pi / 3) = cos (2 * pi)" "sin (6 * pi / 3) = sin (2 * pi)"
    by (simp_all only: a(4))
  then show "cos (6 * pi / 3) = 1" "sin (6 * pi / 3) = 0"
    by simp_all
qed

lemma hexVertex_values:
  "hexVertex cx cy r 1 = (cx + r / 2, cy + r * (sqrt 3 / 2))"
  "hexVertex cx cy r 2 = (cx - r / 2, cy + r * (sqrt 3 / 2))"
  "hexVertex cx cy r 3 = (cx - r, cy)"
  "hexVertex cx cy r 4 = (cx - r / 2, cy - r * (sqrt 3 / 2))"
  "hexVertex cx cy r 5 = (cx + r / 2, cy - r * (sqrt 3 / 2))"
  "hexVertex cx cy r 6 = (cx + r, cy)"
  using hex_angles by (simp_all add: hexVertex_def cos_60 sin_60)

lemma hex_hull_aux:
  fixes r H u v :: real
  assumes r: "0 < r" and H: "0 < H"
    and e0: "0 \<le> (- r / 2) * v - H * (u - r)"
    and e1: "0 \<le> r * (H - v)"
    and e2: "0 \<le> (- r / 2) * (v - H) + H * (u + r / 2)"
    and e3: "0 \<le> (r / 2) * v + H * (u + r)"
    and e4: "0 \<le> r * (v + H)"
    and e5: "0 \<le> (r / 2) * (v + H) - H * (u - r / 2)"
  shows "\<exists>w1 w2 w3 w4 w5 w6. 0 \<le> w1 \<and> 0 \<le> w2 \<and> 0 \<le> w3 \<and> 0 \<le> w4 \<and> 0 \<le> w5 \<and> 0 \<le> w6 \<and>
           w1 + w2 + w3 + w4 + w5 + w6 = 1 \<and>
           u = w1 * (r / 2) + w2 * (- r / 2) + w3 * (- r) + w4 * (- r / 2) + w5 * (r / 2) + w6 * r \<and>
           v = w1 * H + w2 * H + w4 * (- H) + w5 * (- H)"
proof -
  have rH: "0 < r * H"
    using r H by simp
  have vH: "v \<le> H" "- H \<le> v"
    using e1 e4 r by (simp_all add: zero_le_mult_iff)
  consider "u < - r / 2" | "- r / 2 \<le> u \<and> u \<le> r / 2" | "r / 2 < u"
    by linarith
  then show ?thesis
  proof cases
    case 2
    define a where "a = (u + r / 2) / r"
    define b where "b = (v + H) / (2 * H)"
    have a: "0 \<le> a" "a \<le> 1" using 2 r by (simp_all add: a_def field_simps)
    have b: "0 \<le> b" "b \<le> 1" using vH H by (simp_all add: b_def field_simps)
    have ua: "u = r * a - r / 2" using r by (simp add: a_def field_simps)
    have vb: "v = 2 * H * b - H" using H by (simp add: b_def field_simps)
    have n: "0 \<le> a * b" "0 \<le> (1 - a) * b" "0 \<le> (1 - a) * (1 - b)" "0 \<le> a * (1 - b)"
      using a b by simp_all
    have z: "(0::real) \<le> 0" by simp
    have s1: "a * b + (1 - a) * b + 0 + (1 - a) * (1 - b) + a * (1 - b) + 0 = 1"
      by (simp add: algebra_simps)
    have su: "u = a * b * (r / 2) + (1 - a) * b * (- r / 2) + 0 * (- r) +
        (1 - a) * (1 - b) * (- r / 2) + a * (1 - b) * (r / 2) + 0 * r"
      unfolding ua by (simp add: field_simps)
    have sv: "v = a * b * H + (1 - a) * b * H + (1 - a) * (1 - b) * (- H) +
        a * (1 - b) * (- H)"
      unfolding vb by (simp add: algebra_simps)
    show ?thesis
      by (rule exI [of _ "a * b"], rule exI [of _ "(1 - a) * b"], rule exI [of _ "0::real"],
          rule exI [of _ "(1 - a) * (1 - b)"], rule exI [of _ "a * (1 - b)"],
          rule exI [of _ "0::real"], intro conjI) (rule n z s1 su sv)+
  next
    case 3
    define l0 where "l0 = (2 * u - r) / r"
    define l1 where "l1 = ((1 - l0) + v / H) / 2"
    define l5 where "l5 = ((1 - l0) - v / H) / 2"
    have l0: "0 \<le> l0" using 3 r by (simp add: l0_def field_simps)
    have ul: "2 * u = l0 * r + r" using r by (simp add: l0_def field_simps)
    have g1: "0 \<le> r * H * (2 * l1)"
    proof -
      have "r * H * (2 * l1) = r * H - H * (r * l0) + r * v"
        using H by (simp add: l1_def field_simps)
      also have "\<dots> = 2 * ((r / 2) * (v + H) - H * (u - r / 2))"
        using ul by (simp add: algebra_simps)
      finally show ?thesis using e5 by simp
    qed
    have g5: "0 \<le> r * H * (2 * l5)"
    proof -
      have "r * H * (2 * l5) = r * H - H * (r * l0) - r * v"
        using H by (simp add: l5_def field_simps)
      also have "\<dots> = 2 * ((- r / 2) * v - H * (u - r))"
        using ul by (simp add: algebra_simps)
      finally show ?thesis using e0 by simp
    qed
    have l1: "0 \<le> l1" and l5: "0 \<le> l5"
      using g1 g5 rH by (auto simp add: zero_le_mult_iff)
    have s: "l1 + l5 = 1 - l0" by (simp add: l1_def l5_def field_simps)
    have d: "l1 - l5 = v / H" by (simp add: l1_def l5_def field_simps)
    have z: "(0::real) \<le> 0" by simp
    have s1: "l1 + 0 + 0 + 0 + l5 + l0 = 1" using s by simp
    have su: "u = l1 * (r / 2) + 0 * (- r / 2) + 0 * (- r) + 0 * (- r / 2) + l5 * (r / 2) + l0 * r"
    proof -
      have "l1 * (r / 2) + l5 * (r / 2) + l0 * r = (l1 + l5) * (r / 2) + l0 * r"
        by (simp add: algebra_simps)
      also have "\<dots> = (l0 * r + r) / 2" unfolding s by (simp add: field_simps)
      finally show ?thesis using ul by simp
    qed
    have sv: "v = l1 * H + 0 * H + 0 * (- H) + l5 * (- H)"
    proof -
      have "l1 * H + l5 * (- H) = (l1 - l5) * H" by (simp add: algebra_simps)
      then show ?thesis unfolding d using H by simp
    qed
    show ?thesis
      by (rule exI [of _ l1], rule exI [of _ "0::real"], rule exI [of _ "0::real"],
          rule exI [of _ "0::real"], rule exI [of _ l5], rule exI [of _ l0], intro conjI)
        (rule l0 l1 l5 z s1 su sv)+
  next
    case 1
    define m3 where "m3 = (- 2 * u - r) / r"
    define m2 where "m2 = ((1 - m3) + v / H) / 2"
    define m4 where "m4 = ((1 - m3) - v / H) / 2"
    have m3: "0 \<le> m3" using 1 r by (simp add: m3_def field_simps)
    have um: "2 * u = - (m3 * r) - r" using r by (simp add: m3_def field_simps)
    have uu: "u = (- (m3 * r) - r) / 2" using um by simp
    have g2: "0 \<le> r * H * (2 * m2)"
    proof -
      have "r * H * (2 * m2) = r * H - H * (r * m3) + r * v"
        using H by (simp add: m2_def field_simps)
      also have "\<dots> = 2 * ((r / 2) * v + H * (u + r))"
        unfolding uu by (simp add: field_simps)
      finally show ?thesis using e3 by simp
    qed
    have g4: "0 \<le> r * H * (2 * m4)"
    proof -
      have "r * H * (2 * m4) = r * H - H * (r * m3) - r * v"
        using H by (simp add: m4_def field_simps)
      also have "\<dots> = 2 * ((- r / 2) * (v - H) + H * (u + r / 2))"
        unfolding uu by (simp add: field_simps)
      finally show ?thesis using e2 by simp
    qed
    have m2: "0 \<le> m2" and m4: "0 \<le> m4"
      using g2 g4 rH by (auto simp add: zero_le_mult_iff)
    have s: "m2 + m4 = 1 - m3" by (simp add: m2_def m4_def field_simps)
    have d: "m2 - m4 = v / H" by (simp add: m2_def m4_def field_simps)
    have z: "(0::real) \<le> 0" by simp
    have s1: "0 + m2 + m3 + m4 + 0 + 0 = 1" using s by simp
    have su: "u = 0 * (r / 2) + m2 * (- r / 2) + m3 * (- r) + m4 * (- r / 2) + 0 * (r / 2) + 0 * r"
    proof -
      have "m2 * (- r / 2) + m3 * (- r) + m4 * (- r / 2) = - ((m2 + m4) * (r / 2) + m3 * r)"
        by (simp add: algebra_simps)
      also have "\<dots> = (- (m3 * r) - r) / 2" unfolding s by (simp add: field_simps)
      finally show ?thesis using um by simp
    qed
    have sv: "v = 0 * H + m2 * H + m4 * (- H) + 0 * (- H)"
    proof -
      have "m2 * H + m4 * (- H) = (m2 - m4) * H" by (simp add: algebra_simps)
      then show ?thesis unfolding d using H by simp
    qed
    show ?thesis
      by (rule exI [of _ "0::real"], rule exI [of _ m2], rule exI [of _ m3],
          rule exI [of _ m4], rule exI [of _ "0::real"], rule exI [of _ "0::real"], intro conjI)
        (rule m2 m3 m4 z s1 su sv)+
  qed
qed

lemma hull6I:
  assumes "0 \<le> w1" "0 \<le> w2" "0 \<le> w3" "0 \<le> w4" "0 \<le> w5" "0 \<le> w6"
    "w1 + w2 + w3 + w4 + w5 + w6 = 1"
    "fst p = w1 * fst v1 + w2 * fst v2 + w3 * fst v3 + w4 * fst v4 + w5 * fst v5 + w6 * fst v6"
    "snd p = w1 * snd v1 + w2 * snd v2 + w3 * snd v3 + w4 * snd v4 + w5 * snd v5 + w6 * snd v6"
  shows "in_hull [v1, v2, v3, v4, v5, v6] p"
  unfolding in_hull_def
  using assms by (intro exI [of _ "[w1, w2, w3, w4, w5, w6]"]) simp

lemma hexagon_edges:
  fixes cx cy r :: real and p :: point
  defines "u \<equiv> fst p - cx" and "v \<equiv> snd p - cy" and "H \<equiv> r * (sqrt 3 / 2)"
  shows "map (\<lambda>(a, b). cross a b p)
           (closedEdges ((cx + r, cy) # map (hexVertex cx cy r) [1..6])) =
         [(- r / 2) * v - H * (u - r), r * (H - v), (- r / 2) * (v - H) + H * (u + r / 2),
          (r / 2) * v + H * (u + r), r * (v + H), (r / 2) * (v + H) - H * (u - r / 2), 0]"
  by (simp add: closedEdges_def upto_1_6 hexVertex_values cross_def u_def v_def H_def
      field_simps)

lemma list_all_cross:
  "list_all (\<lambda>(a, b). P (cross a b p)) es = list_all P (map (\<lambda>(a, b). cross a b p) es)"
  by (induction es) auto

lemma hexagon_hull:
  fixes cx cy r :: real and p :: point
  assumes r: "0 \<le> r"
    and c: "in_convex ((cx + r, cy) # map (hexVertex cx cy r) [1..6]) p"
    and b: "in_rect (cx - r) (cy - r) (2 * r) (2 * r) p"
  shows "in_hull (map (hexVertex cx cy r) [1..6]) p"
proof (cases "r = 0")
  case True
  with b have p: "fst p = cx" "snd p = cy"
    by (simp_all add: in_rect_def)
  show ?thesis
    unfolding upto_1_6 list.map hexVertex_values
    by (rule hull6I [of 1 0 0 0 0 0]) (simp_all add: p True)
next
  case False
  with r have r0: "0 < r" by simp
  define u where "u = fst p - cx"
  define v where "v = snd p - cy"
  define H where "H = r * (sqrt 3 / 2)"
  have H0: "0 < H" using r0 by (simp add: H_def)
  note e = hexagon_edges [where cx = cx and cy = cy and r = r and p = p, folded u_def v_def H_def]
  from c have "list_all (\<lambda>c. 0 \<le> c) (map (\<lambda>(a, b). cross a b p)
                 (closedEdges ((cx + r, cy) # map (hexVertex cx cy r) [1..6]))) \<or>
               list_all (\<lambda>c. c \<le> 0) (map (\<lambda>(a, b). cross a b p)
                 (closedEdges ((cx + r, cy) # map (hexVertex cx cy r) [1..6])))"
    unfolding in_convex_def list_all_cross [symmetric] by simp
  then have pos: "0 \<le> (- r / 2) * v - H * (u - r) \<and> 0 \<le> r * (H - v) \<and>
      0 \<le> (- r / 2) * (v - H) + H * (u + r / 2) \<and> 0 \<le> (r / 2) * v + H * (u + r) \<and>
      0 \<le> r * (v + H) \<and> 0 \<le> (r / 2) * (v + H) - H * (u - r / 2)"
  proof
    assume "list_all (\<lambda>c. 0 \<le> c) (map (\<lambda>(a, b). cross a b p)
                 (closedEdges ((cx + r, cy) # map (hexVertex cx cy r) [1..6])))"
    then show ?thesis unfolding e by (simp only: list_all_Nil_iff list_all_Cons_iff simp_thms)
  next
    assume "list_all (\<lambda>c. c \<le> 0) (map (\<lambda>(a, b). cross a b p)
                 (closedEdges ((cx + r, cy) # map (hexVertex cx cy r) [1..6])))"
    then have n: "r * (H - v) \<le> 0 \<and> r * (v + H) \<le> 0"
      unfolding e by (simp only: list_all_Nil_iff list_all_Cons_iff simp_thms)
    have "H - v \<le> 0" "v + H \<le> 0"
      using n r0 by (simp_all add: mult_le_0_iff)
    with H0 have False by linarith
    then show ?thesis ..
  qed
  have p: "0 \<le> (- r / 2) * v - H * (u - r)" "0 \<le> r * (H - v)"
      "0 \<le> (- r / 2) * (v - H) + H * (u + r / 2)" "0 \<le> (r / 2) * v + H * (u + r)"
      "0 \<le> r * (v + H)" "0 \<le> (r / 2) * (v + H) - H * (u - r / 2)"
    using pos by - (elim conjE, assumption)+
  have "\<exists>w1 w2 w3 w4 w5 w6. 0 \<le> w1 \<and> 0 \<le> w2 \<and> 0 \<le> w3 \<and> 0 \<le> w4 \<and> 0 \<le> w5 \<and> 0 \<le> w6 \<and>
           w1 + w2 + w3 + w4 + w5 + w6 = 1 \<and>
           u = w1 * (r / 2) + w2 * (- r / 2) + w3 * (- r) + w4 * (- r / 2) + w5 * (r / 2) + w6 * r \<and>
           v = w1 * H + w2 * H + w4 * (- H) + w5 * (- H)"
    by (rule hex_hull_aux [OF r0 H0 p])
  then obtain w1 w2 w3 w4 w5 w6 where ww:
    "0 \<le> w1 \<and> 0 \<le> w2 \<and> 0 \<le> w3 \<and> 0 \<le> w4 \<and> 0 \<le> w5 \<and> 0 \<le> w6 \<and>
           w1 + w2 + w3 + w4 + w5 + w6 = 1 \<and>
           u = w1 * (r / 2) + w2 * (- r / 2) + w3 * (- r) + w4 * (- r / 2) + w5 * (r / 2) + w6 * r \<and>
           v = w1 * H + w2 * H + w4 * (- H) + w5 * (- H)"
    by (elim exE)
  have w: "0 \<le> w1" "0 \<le> w2" "0 \<le> w3" "0 \<le> w4" "0 \<le> w5" "0 \<le> w6"
    "w1 + w2 + w3 + w4 + w5 + w6 = 1"
    "u = w1 * (r / 2) + w2 * (- r / 2) + w3 * (- r) + w4 * (- r / 2) + w5 * (r / 2) + w6 * r"
    "v = w1 * H + w2 * H + w4 * (- H) + w5 * (- H)"
    using ww by - (elim conjE, assumption)+
  have s: "w6 = 1 - (w1 + w2 + w3 + w4 + w5)" using w(7) by simp
  have fp: "fst p = cx + u" "snd p = cy + v" by (simp_all add: u_def v_def)
  show ?thesis
    unfolding upto_1_6 list.map hexVertex_values
  proof (rule hull6I [of w1 w2 w3 w4 w5 w6])
    show "fst p = w1 * fst (cx + r / 2, cy + r * (sqrt 3 / 2)) +
        w2 * fst (cx - r / 2, cy + r * (sqrt 3 / 2)) + w3 * fst (cx - r, cy) +
        w4 * fst (cx - r / 2, cy - r * (sqrt 3 / 2)) +
        w5 * fst (cx + r / 2, cy - r * (sqrt 3 / 2)) + w6 * fst (cx + r, cy)"
      unfolding fp w(8) s by (simp add: algebra_simps)
    show "snd p = w1 * snd (cx + r / 2, cy + r * (sqrt 3 / 2)) +
        w2 * snd (cx - r / 2, cy + r * (sqrt 3 / 2)) + w3 * snd (cx - r, cy) +
        w4 * snd (cx - r / 2, cy - r * (sqrt 3 / 2)) +
        w5 * snd (cx + r / 2, cy - r * (sqrt 3 / 2)) + w6 * snd (cx + r, cy)"
      unfolding fp w(9) s H_def by (simp add: algebra_simps)
  qed (rule w)+
qed

lemma shapePath_cases:
  "shape opts = Square \<Longrightarrow> shapePath opts x y s = [Rect x y s s]"
  "shape opts = RoundedShape \<Longrightarrow> shapePath opts x y s = [RoundRect x y s s (s * 0.1)]"
  "shape opts = Circle \<Longrightarrow> shapePath opts x y s = [Arc (x + s / 2) (y + s / 2) (s / 2) 0 (2 * pi)]"
  "shape opts = Hexagon \<Longrightarrow> shapePath opts x y s =
     MoveTo (x + s / 2 + s / 2) (y + s / 2) # hexLines (x + s / 2) (y + s / 2) (s / 2) @ [ClosePath]"
  by (simp_all add: shapePath_def applyQRShape_def Let_def run_Cons run_Nil ctx_ops fresh_ctx_def)

lemma lineToPoints_hexLines:
  "lineToPoints (hexLines cx cy r @ [ClosePath]) = map (hexVertex cx cy r) [1..6]"
  by (simp add: hexLines_def upto_1_6)

lemma imagePixel_symbol:
  "imagePixel (symbolDraw opts dataUrl) p =
     (in_rect (qrX opts) (qrX opts) (real (qsize opts)) (real (qsize opts)) p \<and>
      inside (shapePath opts (qrX opts) (qrX opts) (real (qsize opts))) p)"
  by (simp add: imagePixel_def symbolDraw_def clipped_def)

lemma hexagon_pixels:
  assumes "shape opts = Hexagon" "imagePixel (symbolDraw opts dataUrl) p"
  shows "in_hull (map (hexVertex (qrX opts + real (qsize opts) / 2)
                        (qrX opts + real (qsize opts) / 2) (real (qsize opts) / 2)) [1..6]) p"
proof -
  let ?x = "qrX opts" and ?s = "real (qsize opts)"
  from assms have r: "in_rect ?x ?x ?s ?s p"
    and i: "in_convex ((?x + ?s / 2 + ?s / 2, ?x + ?s / 2) #
              map (hexVertex (?x + ?s / 2) (?x + ?s / 2) (?s / 2)) [1..6]) p"
    by (simp_all add: imagePixel_symbol shapePath_cases lineToPoints_hexLines)
  have r': "in_rect (?x + ?s / 2 - ?s / 2) (?x + ?s / 2 - ?s / 2) (2 * (?s / 2)) (2 * (?s / 2)) p"
    using r by simp
  show ?thesis
    by (rule hexagon_hull [OF _ i r']) simp
qed

lemma qrX_demo: "qrX (options (demoApp ft sh t logo)) = (if ft = FNone then 0 else 30)"
  by (simp add: qrX_def options_demo frameSize_def extraSpace_def initialOptions_def)

lemma qsize_demo: "qsize (options (demoApp ft sh t logo)) = 300"
  by (simp add: options_demo initialOptions_def)

lemma shape_demo: "shape (options (demoApp ft sh t logo)) = sh"
  by (simp add: options_demo)

lemma hexagon_centre:
  "in_convex ((300, 150) # map (hexVertex 150 150 150) [1..6]) (150, 150)"
proof -
  have "map (\<lambda>(a, b). cross a b (150, 150))
          (closedEdges ((300, 150) # map (hexVertex 150 150 150) [1..6])) =
        [11250 * sqrt 3, 11250 * sqrt 3, 11250 * sqrt 3, 11250 * sqrt 3, 11250 * sqrt 3,
         11250 * sqrt 3, 0]"
    using hexagon_edges [where cx = 150 and cy = 150 and r = 150 and p = "(150, 150)"]
    by simp
  then have "list_all (\<lambda>c. 0 \<le> c) (map (\<lambda>(a, b). cross a b (150, 150))
          (closedEdges ((300, 150) # map (hexVertex 150 150 150) [1..6])))"
    by simp
  then show ?thesis
    unfolding in_convex_def list_all_cross [symmetric] by simp
qed

lemma log_split:
  "expectedLog opts dataUrl logo =
     beforeFirst SymbolLayer (expectedLog opts dataUrl logo) @
     symbolDraw opts dataUrl # afterFirst SymbolLayer (expectedLog opts dataUrl logo)"
  unfolding before_symbol after_symbol by (simp add: expectedLog_def)

lemma frameDraws_simple_demo:
  "frameDraws (options (demoApp Simple sh t logo)) =
     [\<lparr>d_layer = FrameLayer, d_op = StrokeRect 36 36 288 288,
       d_state = default_state\<lparr>strokeStyle := Color ''#6366f1'', lineWidth := 8\<rparr>\<rparr>]"
  by (simp add: frameDraws_def drawFrame_def Let_def options_demo initialOptions_def
      frameSize_def extraSpace_def run_Cons run_Nil ctx_ops fresh_ctx_def)

section \<open>The claims\<close>

subsection \<open>C1: the size of the canvas\<close>

text \<open>
  C1. Whenever a render reaches compositing, the canvas is \<open>frameSize\<close> wide and
  \<open>totalHeight\<close> high, where \<open>frameSize\<close> is \<open>size + 60\<close> when the frame type is not
  \<open>none\<close> and \<open>size\<close> otherwise, and \<open>totalHeight\<close> is \<open>frameSize + 40\<close> when the
  bottom text is not empty and \<open>frameSize\<close> otherwise. Nothing later in the render changes
  the canvas's size, whether or not the images decode.
\<close>

theorem canvas_dimensions:
  assumes "composes env st dataUrl"
  shows "\<exists>cv. canvasRef (generateQR env st) = Some cv \<and>
           width cv = frameSize (options st) \<and> height cv = totalHeight (options st) \<and>
           frameSize (options st) =
             (if frameType (options st) \<noteq> FNone then qsize (options st) + 60
              else qsize (options st)) \<and>
           totalHeight (options st) =
             (if bottomText (options st) \<noteq> [] then frameSize (options st) + 40
              else frameSize (options st))"
proof -
  from composes_canvas [OF assms] obtain cv where
    "canvasRef (generateQR env st) = Some cv" "width cv = frameSize (options st)"
    "height cv = totalHeight (options st)"
    by blast
  moreover have "frameSize (options st) =
             (if frameType (options st) \<noteq> FNone then qsize (options st) + 60
              else qsize (options st))"
    by (simp add: frameSize_def extraSpace_def)
  moreover have "totalHeight (options st) =
             (if bottomText (options st) \<noteq> [] then frameSize (options st) + 40
              else frameSize (options st))"
    by (simp add: totalHeight_def textSpace_def)
  ultimately show ?thesis by blast
qed

theorem canvas_dimensions_witness:
  "composes okBrowser (demoApp Simple Square [] []) qrUrl \<and>
   (\<exists>cv. canvasRef (generateQR okBrowser (demoApp Simple Square [] [])) = Some cv \<and>
         width cv = 360 \<and> height cv = 360) \<and>
   composes okBrowser (demoApp FNone Square ''Scan Me'' []) qrUrl \<and>
   (\<exists>cv. canvasRef (generateQR okBrowser (demoApp FNone Square ''Scan Me'' [])) = Some cv \<and>
         width cv = 300 \<and> height cv = 340)"
  using canvas_dimensions [OF composes_demo [of Simple Square "[]" "[]"]]
    canvas_dimensions [OF composes_demo [of FNone Square "''Scan Me''" "[]"]]
    composes_demo [of Simple Square "[]" "[]"] composes_demo [of FNone Square "''Scan Me''" "[]"]
  by (auto simp add: options_demo initialOptions_def)

subsection \<open>C2: the frame and the symbol\<close>

text \<open>
  C2, as the code has it. In a completed render with a frame, the log of draws is the draws
  before the symbol, the symbol's draw, and the draws after it, and the frame draws
  something. For speech-bubble, wavy and card-style all the frame's draws come before the
  symbol's, and after the symbol only the logo's disc, the logo and the caption are drawn:
  the frame never paints over the symbol, which shows wherever its clip lets it. For
  simple, rounded, gradient, neon and vintage nothing but the clearing of the canvas comes
  before the symbol, all the frame's draws come after it, and the symbol is not drawn
  again: the frame is painted on top of the symbol.
\<close>

theorem frame_order:
  assumes "completes env st dataUrl" "frameType (options st) \<noteq> FNone"
  shows "canvasLog (generateQR env st) =
           beforeFirst SymbolLayer (canvasLog (generateQR env st)) @
           symbolDraw (options st) dataUrl #
           afterFirst SymbolLayer (canvasLog (generateQR env st)) \<and>
         frameDraws (options st) \<noteq> [] \<and>
         (frameType (options st) \<in> {SpeechBubble, Wavy, CardStyle} \<longrightarrow>
            set (frameDraws (options st)) \<subseteq>
              set (beforeFirst SymbolLayer (canvasLog (generateQR env st))) \<and>
            (\<forall>d \<in> set (afterFirst SymbolLayer (canvasLog (generateQR env st))).
               d_layer d \<in> {LogoDiscLayer, LogoLayer, CaptionLayer})) \<and>
         (frameType (options st) \<in> {Simple, Rounded, Gradient, Neon, Vintage} \<longrightarrow>
            (\<forall>d \<in> set (beforeFirst SymbolLayer (canvasLog (generateQR env st))).
               d_layer d = ClearLayer) \<and>
            set (frameDraws (options st)) \<subseteq>
              set (afterFirst SymbolLayer (canvasLog (generateQR env st))) \<and>
            (\<forall>d \<in> set (afterFirst SymbolLayer (canvasLog (generateQR env st))).
               d_layer d \<noteq> SymbolLayer))"
proof (intro conjI impI ballI)
  let ?opts = "options st"
  note log = render_log [OF assms(1)]
  show "canvasLog (generateQR env st) =
           beforeFirst SymbolLayer (canvasLog (generateQR env st)) @
           symbolDraw ?opts dataUrl # afterFirst SymbolLayer (canvasLog (generateQR env st))"
    unfolding log by (rule log_split)
  show "frameDraws ?opts \<noteq> []"
    using assms(2) by (simp add: frameDraws_empty)
  show "set (frameDraws ?opts) \<subseteq> set (beforeFirst SymbolLayer (canvasLog (generateQR env st)))"
    if "frameType ?opts \<in> {SpeechBubble, Wavy, CardStyle}"
    using that unfolding log before_symbol by (auto simp add: frameFirst_iff)
  show "d_layer d \<in> {LogoDiscLayer, LogoLayer, CaptionLayer}"
    if "frameType ?opts \<in> {SpeechBubble, Wavy, CardStyle}"
      "d \<in> set (afterFirst SymbolLayer (canvasLog (generateQR env st)))" for d
  proof -
    from that(1) have "\<not> frameAfter ?opts"
      by (auto simp add: frameAfter_iff)
    with that(2) have "d \<in> set (logoDraws ?opts (logoDataUrl st)) \<or> d \<in> set (captionDraws ?opts)"
      unfolding log after_symbol by simp
    then show ?thesis
      using logoDraws_layer [of d ?opts "logoDataUrl st"] captionDraws_layer [of d ?opts]
      by auto
  qed
  show "d_layer d = ClearLayer"
    if "frameType ?opts \<in> {Simple, Rounded, Gradient, Neon, Vintage}"
      "d \<in> set (beforeFirst SymbolLayer (canvasLog (generateQR env st)))" for d
  proof -
    from that(1) have "\<not> frameFirst ?opts"
      by (auto simp add: frameFirst_iff)
    with that(2) show ?thesis
      unfolding log before_symbol by (simp add: clearDraw_layer)
  qed
  show "set (frameDraws ?opts) \<subseteq> set (afterFirst SymbolLayer (canvasLog (generateQR env st)))"
    if "frameType ?opts \<in> {Simple, Rounded, Gradient, Neon, Vintage}"
    using that unfolding log after_symbol by (auto simp add: frameAfter_iff)
  show "d_layer d \<noteq> SymbolLayer"
    if "frameType ?opts \<in> {Simple, Rounded, Gradient, Neon, Vintage}"
      "d \<in> set (afterFirst SymbolLayer (canvasLog (generateQR env st)))" for d
  proof -
    from that(2) have "d \<in> set (frameDraws ?opts) \<or>
        d \<in> set (logoDraws ?opts (logoDataUrl st)) \<or> d \<in> set (captionDraws ?opts)"
      unfolding log after_symbol by (auto split: if_splits)
    then show ?thesis
      using logoDraws_layer [of d ?opts "logoDataUrl st"] captionDraws_layer [of d ?opts]
        frameDraws_layer [of d ?opts]
      by auto
  qed
qed

theorem frame_order_witness:
  "completes okBrowser (demoApp CardStyle Square [] ''data:logo'') qrUrl \<and>
   frameType (options (demoApp CardStyle Square [] ''data:logo'')) = CardStyle \<and>
   list_all (\<lambda>d. d_layer d \<in> {LogoDiscLayer, LogoLayer, CaptionLayer})
     (afterFirst SymbolLayer
        (canvasLog (generateQR okBrowser (demoApp CardStyle Square [] ''data:logo'')))) \<and>
   completes okBrowser (demoApp Simple Square [] []) qrUrl \<and>
   frameType (options (demoApp Simple Square [] [])) = Simple \<and>
   list_all (\<lambda>d. d_layer d = ClearLayer)
     (beforeFirst SymbolLayer (canvasLog (generateQR okBrowser (demoApp Simple Square [] [])))) \<and>
   frameDraws (options (demoApp Simple Square [] [])) \<noteq> []"
proof -
  have a: "frameType (options (demoApp CardStyle Square [] ''data:logo'')) \<noteq> FNone"
    and b: "frameType (options (demoApp Simple Square [] [])) \<noteq> FNone"
    by (simp_all add: options_demo)
  show ?thesis
    using frame_order [OF completes_demo a] frame_order [OF completes_demo b]
      completes_demo [of CardStyle Square "[]" "''data:logo''"]
      completes_demo [of Simple Square "[]" "[]"]
    by (simp add: options_demo list_all_iff)
qed

text \<open>
  The claim as stated, that a frame drawn after the symbol overwrites none of its pixels,
  fails: with size 300 the symbol covers the square from 30 to 330, and the simple frame is
  a stroke of width 8 along the rectangle at 36 of side 288, so the point \<open>(36, 100)\<close> on
  the frame's left edge is painted by the symbol and then by the frame.
\<close>

theorem border_frame_over_symbol_counterexample:
  "completes okBrowser (demoApp Simple Square [] []) qrUrl \<and>
   frameType (options (demoApp Simple Square [] [])) = Simple \<and>
   canvasLog (generateQR okBrowser (demoApp Simple Square [] [])) =
     [clearDraw (options (demoApp Simple Square [] [])),
      symbolDraw (options (demoApp Simple Square [] [])) qrUrl,
      \<lparr>d_layer = FrameLayer, d_op = StrokeRect 36 36 288 288,
       d_state = default_state\<lparr>strokeStyle := Color ''#6366f1'', lineWidth := 8\<rparr>\<rparr>] \<and>
   d_op (symbolDraw (options (demoApp Simple Square [] [])) qrUrl) =
     DrawImage (QrImg qrUrl) 30 30 300 300 \<and>
   imagePixel (symbolDraw (options (demoApp Simple Square [] [])) qrUrl) (36, 100) \<and>
   strokeRectPixel
     \<lparr>d_layer = FrameLayer, d_op = StrokeRect 36 36 288 288,
      d_state = default_state\<lparr>strokeStyle := Color ''#6366f1'', lineWidth := 8\<rparr>\<rparr> (36, 100)"
proof -
  have c: "completes okBrowser (demoApp Simple Square [] []) qrUrl"
    by (rule completes_demo)
  have l: "canvasLog (generateQR okBrowser (demoApp Simple Square [] [])) =
     [clearDraw (options (demoApp Simple Square [] [])),
      symbolDraw (options (demoApp Simple Square [] [])) qrUrl,
      \<lparr>d_layer = FrameLayer, d_op = StrokeRect 36 36 288 288,
       d_state = default_state\<lparr>strokeStyle := Color ''#6366f1'', lineWidth := 8\<rparr>\<rparr>]"
    unfolding render_log [OF c] expectedLog_def frameDraws_simple_demo
    by (simp add: frameFirst_def frameAfter_def logoDraws_def captionDraws_def options_demo)
  have o: "d_op (symbolDraw (options (demoApp Simple Square [] [])) qrUrl) =
     DrawImage (QrImg qrUrl) 30 30 300 300"
    by (simp add: symbolDraw_def qrX_demo qsize_demo)
  have i: "imagePixel (symbolDraw (options (demoApp Simple Square [] [])) qrUrl) (36, 100)"
    by (simp add: imagePixel_symbol shapePath_cases shape_demo qrX_demo qsize_demo in_rect_def)
  have s: "strokeRectPixel
     \<lparr>d_layer = FrameLayer, d_op = StrokeRect 36 36 288 288,
      d_state = default_state\<lparr>strokeStyle := Color ''#6366f1'', lineWidth := 8\<rparr>\<rparr> (36, 100)"
    by (simp add: strokeRectPixel_def Let_def in_rect_def in_rect_open_def clipped_def
        default_state_def)
  show ?thesis
    using c l o i s by (simp add: options_demo)
qed

subsection \<open>C3: the caption\<close>

text \<open>
  C3, as the code has it. In a completed render with a non-empty bottom text the caption is
  the last draw: after the logo when there is one, else right after the border frame or,
  with no border frame, the symbol. It is drawn with \<open>bottomTextColor\<close> as fill style, the
  font \<open>bottomTextSize\<close> px Arial and centred alignment, under no clip, at the horizontal
  middle of the canvas and at the height \<open>frameSize + 25\<close>: 25 pixels below the bottom edge
  of the \<open>frameSize\<close> square. That is 25 pixels below the bottom edge of the symbol region
  when there is no frame and 55 pixels below it when there is one, the symbol region being
  inset by 30 pixels then.
\<close>

theorem caption_draw:
  assumes "completes env st dataUrl" "bottomText (options st) \<noteq> []"
  shows "layerDraws CaptionLayer (canvasLog (generateQR env st)) =
           [last (canvasLog (generateQR env st))] \<and>
         d_op (last (canvasLog (generateQR env st))) =
           FillText (bottomText (options st))
             (real (canvasWidth (generateQR env st)) / 2)
             (real (frameSize (options st)) + 25) \<and>
         real (frameSize (options st)) + 25 =
           (qrX (options st) + real (qsize (options st))) +
             (if frameType (options st) = FNone then 25 else 55) \<and>
         fillStyle (d_state (last (canvasLog (generateQR env st)))) =
           Color (bottomTextColor (options st)) \<and>
         font (d_state (last (canvasLog (generateQR env st)))) =
           (bottomTextSize (options st), ''Arial'') \<and>
         textAlign (d_state (last (canvasLog (generateQR env st)))) = ''center'' \<and>
         clipPaths (d_state (last (canvasLog (generateQR env st)))) = [] \<and>
         d_layer (last (butlast (canvasLog (generateQR env st)))) =
           (if logoDataUrl st \<noteq> [] then LogoLayer
            else if frameAfter (options st) then FrameLayer else SymbolLayer)"
proof -
  let ?opts = "options st"
  let ?pre = "clearDraw ?opts # (if frameFirst ?opts then frameDraws ?opts else []) @
            symbolDraw ?opts dataUrl # (if frameAfter ?opts then frameDraws ?opts else []) @
            logoDraws ?opts (logoDataUrl st)"
  let ?cap = "\<lparr>d_layer = CaptionLayer,
         d_op = FillText (bottomText ?opts) (real (frameSize ?opts) / 2)
                  (real (frameSize ?opts) + 25),
         d_state = default_state\<lparr>fillStyle := Color (bottomTextColor ?opts),
                                 font := (bottomTextSize ?opts, ''Arial''),
                                 textAlign := ''center''\<rparr>\<rparr>"
  have log: "canvasLog (generateQR env st) = ?pre @ [?cap]"
    using render_log [OF assms(1)]
      expectedLog_caption(1) [OF assms(2), of dataUrl "logoDataUrl st"]
      expectedLog_caption(2) [OF assms(2)]
    by simp
  have lst: "last (canvasLog (generateQR env st)) = ?cap"
    and bl: "butlast (canvasLog (generateQR env st)) = ?pre"
    unfolding log by (simp_all only: last_snoc butlast_snoc)
  have caps: "layerDraws CaptionLayer (canvasLog (generateQR env st)) = [?cap]"
    using render_log [OF assms(1)] expectedLog_caption(2) [OF assms(2)]
    by (simp add: layerDraws_expected)
  have y: "real (frameSize ?opts) + 25 =
           (qrX ?opts + real (qsize ?opts)) +
             (if frameType ?opts = FNone then 25 else 55)"
    by (simp add: qrX_def frameSize_def extraSpace_def)
  show ?thesis
    unfolding lst bl caps
    using y last_before_caption [of ?opts dataUrl "logoDataUrl st"] render_dims(1) [OF assms(1)]
    by (simp add: default_state_def)
qed

theorem caption_draw_witness:
  "completes okBrowser (demoApp Simple Square ''Scan Me'' ''data:logo'') qrUrl \<and>
   bottomText (options (demoApp Simple Square ''Scan Me'' ''data:logo'')) \<noteq> [] \<and>
   d_op (last (canvasLog (generateQR okBrowser (demoApp Simple Square ''Scan Me'' ''data:logo'')))) =
     FillText ''Scan Me'' 180 385 \<and>
   d_layer (last (butlast (canvasLog (generateQR okBrowser
      (demoApp Simple Square ''Scan Me'' ''data:logo''))))) = LogoLayer"
proof -
  have b: "bottomText (options (demoApp Simple Square ''Scan Me'' ''data:logo'')) \<noteq> []"
    by (simp add: options_demo)
  show ?thesis
    using caption_draw [OF completes_demo b] completes_demo [of Simple Square "''Scan Me''" "''data:logo''"]
      render_dims(1) [OF completes_demo, of Simple Square "''Scan Me''" "''data:logo''"]
    by (simp add: options_demo initialOptions_def frameSize_def extraSpace_def)
qed

text \<open>
  The claim as stated, 25 pixels below the symbol region's bottom edge in every render,
  fails with a frame: size 300 and the simple frame put the symbol region at rows 30 to 330
  and the caption at 385.
\<close>

theorem caption_offset_counterexample:
  "completes okBrowser (demoApp Simple Square ''Scan Me'' []) qrUrl \<and>
   layerDraws SymbolLayer (canvasLog (generateQR okBrowser (demoApp Simple Square ''Scan Me'' []))) =
     [\<lparr>d_layer = SymbolLayer, d_op = DrawImage (QrImg qrUrl) 30 30 300 300,
       d_state = default_state\<lparr>clipPaths := [[Rect 30 30 300 300]]\<rparr>\<rparr>] \<and>
   d_op (last (canvasLog (generateQR okBrowser (demoApp Simple Square ''Scan Me'' [])))) =
     FillText ''Scan Me'' 180 385 \<and>
   (385 :: real) \<noteq> (30 + 300) + 25"
proof -
  have c: "completes okBrowser (demoApp Simple Square ''Scan Me'' []) qrUrl"
    by (rule completes_demo)
  have s: "symbolDraw (options (demoApp Simple Square ''Scan Me'' [])) qrUrl =
     \<lparr>d_layer = SymbolLayer, d_op = DrawImage (QrImg qrUrl) 30 30 300 300,
       d_state = default_state\<lparr>clipPaths := [[Rect 30 30 300 300]]\<rparr>\<rparr>"
    by (simp add: symbolDraw_def options_demo initialOptions_def qrX_def frameSize_def
        extraSpace_def shapePath_def applyQRShape_def run_Cons run_Nil ctx_ops fresh_ctx_def)
  have l: "last (canvasLog (generateQR okBrowser (demoApp Simple Square ''Scan Me'' []))) =
      \<lparr>d_layer = CaptionLayer, d_op = FillText ''Scan Me'' 180 385,
       d_state = default_state\<lparr>fillStyle := Color ''#000000'', font := (16, ''Arial''),
                               textAlign := ''center''\<rparr>\<rparr>"
    unfolding render_log [OF c]
    by (simp add: expectedLog_def captionDraws_def logoDraws_def options_demo initialOptions_def
        frameSize_def extraSpace_def)
  show ?thesis
    using c s l by (simp add: render_log [OF c] layerDraws_expected)
qed

subsection \<open>C4: the logo's backing disc\<close>

text \<open>
  C4, as the code has it. In a completed render with a logo there is one backing disc: a
  full circle of radius \<open>size * 0.2 / 2 + 5\<close>, filled with \<open>backgroundColor\<close>, for every
  frame type and shape. Its centre is \<open>(frameSize / 2, frameSize / 2)\<close>: the horizontal
  middle of the canvas, the centre of the symbol region, and the middle of the canvas less
  the caption strip; it is the centre of the whole canvas exactly when the bottom text is
  empty.
\<close>

theorem logo_disc:
  assumes "completes env st dataUrl" "logoDataUrl st \<noteq> []"
  shows "layerDraws LogoDiscLayer (canvasLog (generateQR env st)) =
           [\<lparr>d_layer = LogoDiscLayer,
             d_op = Fill [Arc (real (frameSize (options st)) / 2)
                            (real (frameSize (options st)) / 2)
                            (real (qsize (options st)) * 0.2 / 2 + 5) 0 (2 * pi)],
             d_state = default_state\<lparr>fillStyle := Color (backgroundColor (options st))\<rparr>\<rparr>] \<and>
         real (frameSize (options st)) / 2 =
           real (canvasWidth (generateQR env st)) / 2 \<and>
         real (frameSize (options st)) / 2 =
           qrX (options st) + real (qsize (options st)) / 2 \<and>
         real (frameSize (options st)) / 2 =
           (real (canvasHeight (generateQR env st)) -
            real (textSpace (options st))) / 2 \<and>
         (real (frameSize (options st)) / 2 =
            real (canvasHeight (generateQR env st)) / 2) =
           (bottomText (options st) = [])"
proof -
  have x: "real (frameSize (options st)) / 2 =
           qrX (options st) + real (qsize (options st)) / 2"
    by (simp add: qrX_def field_simps)
  show ?thesis
    using x
    by (simp add: render_log [OF assms(1)] render_dims [OF assms(1)]
        logoDisc_expected [OF assms(2)] totalHeight_def textSpace_def)
qed

theorem logo_disc_witness:
  "completes okBrowser (demoApp CardStyle Hexagon [] ''data:logo'') qrUrl \<and>
   logoDataUrl (demoApp CardStyle Hexagon [] ''data:logo'') \<noteq> [] \<and>
   map d_op (layerDraws LogoDiscLayer
     (canvasLog (generateQR okBrowser (demoApp CardStyle Hexagon [] ''data:logo'')))) =
     [Fill [Arc 180 180 35 0 (2 * pi)]] \<and>
   canvasWidth (generateQR okBrowser (demoApp CardStyle Hexagon [] ''data:logo'')) = 360 \<and>
   canvasHeight (generateQR okBrowser (demoApp CardStyle Hexagon [] ''data:logo'')) = 360"
proof -
  have b: "logoDataUrl (demoApp CardStyle Hexagon [] ''data:logo'') \<noteq> []"
    by (simp add: options_demo)
  show ?thesis
    using logo_disc [OF completes_demo b] completes_demo [of CardStyle Hexagon "[]" "''data:logo''"]
      render_dims [OF completes_demo, of CardStyle Hexagon "[]" "''data:logo''"]
    by (simp add: options_demo initialOptions_def frameSize_def extraSpace_def totalHeight_def
        textSpace_def)
qed

text \<open>
  The claim as stated, centred at the canvas centre also when a caption makes the canvas
  taller, fails: size 300 with no frame and the caption "Scan Me" gives a canvas of 300 by
  340 whose centre is at height 170, and the disc is centred at height 150.
\<close>

theorem logo_disc_centre_counterexample:
  "completes okBrowser (demoApp FNone Square ''Scan Me'' ''data:logo'') qrUrl \<and>
   map d_op (layerDraws LogoDiscLayer
     (canvasLog (generateQR okBrowser (demoApp FNone Square ''Scan Me'' ''data:logo'')))) =
     [Fill [Arc 150 150 35 0 (2 * pi)]] \<and>
   canvasWidth (generateQR okBrowser (demoApp FNone Square ''Scan Me'' ''data:logo'')) = 300 \<and>
   canvasHeight (generateQR okBrowser (demoApp FNone Square ''Scan Me'' ''data:logo'')) = 340 \<and>
   (150 :: real) \<noteq> 340 / 2"
proof -
  have c: "completes okBrowser (demoApp FNone Square ''Scan Me'' ''data:logo'') qrUrl"
    by (rule completes_demo)
  have l: "''data:logo'' \<noteq> []"
    by simp
  show ?thesis
    using c
    by (simp add: render_log [OF c] render_dims [OF c] logoDisc_expected [OF l]
        options_demo initialOptions_def frameSize_def extraSpace_def
        totalHeight_def textSpace_def)
qed

subsection \<open>C5: the clip path of the symbol\<close>

text \<open>
  C5. In a completed render the symbol is drawn once, into the square region of side
  \<open>size\<close> at \<open>(qrX, qrX)\<close>, under one clip path, that of the chosen shape over this
  region. For \<open>square\<close> it is the region itself, and the symbol fills it. For \<open>rounded\<close> it
  is the region with corners of radius \<open>0.1 * size\<close>. For \<open>circle\<close> it is the full circle
  around the centre of the region with radius \<open>size / 2\<close>, the inscribed circle, and no
  point of the symbol lies outside this disc. For \<open>hexagon\<close> it is the closed outline
  through the points at angle \<open>i * 60\<close> degrees and distance \<open>size / 2\<close> from the centre of
  the region, starting at angle 0 and going on with \<open>i\<close> from 1 to 6, and no point of the
  symbol lies outside the convex hull of the six points computed in the loop.
\<close>

theorem symbol_clip_shape:
  assumes "completes env st dataUrl"
  shows "layerDraws SymbolLayer (canvasLog (generateQR env st)) =
           [symbolDraw (options st) dataUrl] \<and>
         d_op (symbolDraw (options st) dataUrl) =
           DrawImage (QrImg dataUrl) (qrX (options st)) (qrX (options st))
             (real (qsize (options st))) (real (qsize (options st))) \<and>
         (shape (options st) = Square \<longrightarrow>
            clipPaths (d_state (symbolDraw (options st) dataUrl)) =
              [[Rect (qrX (options st)) (qrX (options st)) (real (qsize (options st)))
                  (real (qsize (options st)))]] \<and>
            (\<forall>p. imagePixel (symbolDraw (options st) dataUrl) p =
                   in_rect (qrX (options st)) (qrX (options st)) (real (qsize (options st)))
                     (real (qsize (options st))) p)) \<and>
         (shape (options st) = RoundedShape \<longrightarrow>
            clipPaths (d_state (symbolDraw (options st) dataUrl)) =
              [[RoundRect (qrX (options st)) (qrX (options st)) (real (qsize (options st)))
                  (real (qsize (options st))) (0.1 * real (qsize (options st)))]] \<and>
            (\<forall>p. imagePixel (symbolDraw (options st) dataUrl) p =
                   in_round_rect (qrX (options st)) (qrX (options st))
                     (real (qsize (options st))) (real (qsize (options st)))
                     (0.1 * real (qsize (options st))) p)) \<and>
         (shape (options st) = Circle \<longrightarrow>
            clipPaths (d_state (symbolDraw (options st) dataUrl)) =
              [[Arc (qrX (options st) + real (qsize (options st)) / 2)
                  (qrX (options st) + real (qsize (options st)) / 2)
                  (real (qsize (options st)) / 2) 0 (2 * pi)]] \<and>
            (\<forall>p. imagePixel (symbolDraw (options st) dataUrl) p \<longrightarrow>
                   in_disc (qrX (options st) + real (qsize (options st)) / 2)
                     (qrX (options st) + real (qsize (options st)) / 2)
                     (real (qsize (options st)) / 2) p)) \<and>
         (shape (options st) = Hexagon \<longrightarrow>
            clipPaths (d_state (symbolDraw (options st) dataUrl)) =
              [map (\<lambda>v. MoveTo (fst v) (snd v))
                 (map (hexVertex (qrX (options st) + real (qsize (options st)) / 2)
                        (qrX (options st) + real (qsize (options st)) / 2)
                        (real (qsize (options st)) / 2)) [0]) @
               map (\<lambda>v. LineTo (fst v) (snd v))
                 (map (hexVertex (qrX (options st) + real (qsize (options st)) / 2)
                        (qrX (options st) + real (qsize (options st)) / 2)
                        (real (qsize (options st)) / 2)) [1..6]) @
               [ClosePath]] \<and>
            (\<forall>i. hexVertex (qrX (options st) + real (qsize (options st)) / 2)
                   (qrX (options st) + real (qsize (options st)) / 2)
                   (real (qsize (options st)) / 2) i =
                  (qrX (options st) + real (qsize (options st)) / 2 +
                     real (qsize (options st)) / 2 * cos (real_of_int i * (pi / 3)),
                   qrX (options st) + real (qsize (options st)) / 2 +
                     real (qsize (options st)) / 2 * sin (real_of_int i * (pi / 3)))) \<and>
            (\<forall>p. imagePixel (symbolDraw (options st) dataUrl) p \<longrightarrow>
                   in_hull (map (hexVertex (qrX (options st) + real (qsize (options st)) / 2)
                                  (qrX (options st) + real (qsize (options st)) / 2)
                                  (real (qsize (options st)) / 2)) [1..6]) p))"
proof (intro conjI impI allI)
  let ?opts = "options st"
  let ?x = "qrX ?opts"
  let ?s = "real (qsize ?opts)"
  let ?sd = "symbolDraw ?opts dataUrl"
  have cp: "clipPaths (d_state ?sd) = [shapePath ?opts ?x ?x ?s]"
    by (simp add: symbolDraw_def)
  show "layerDraws SymbolLayer (canvasLog (generateQR env st)) = [?sd]"
    by (simp add: render_log [OF assms] layerDraws_expected)
  show "d_op ?sd = DrawImage (QrImg dataUrl) ?x ?x ?s ?s"
    by (simp add: symbolDraw_def)
  show "clipPaths (d_state ?sd) = [[Rect ?x ?x ?s ?s]]" if "shape ?opts = Square"
    using that by (simp add: cp shapePath_cases)
  show "imagePixel ?sd p = in_rect ?x ?x ?s ?s p" if "shape ?opts = Square" for p
    using that by (simp add: imagePixel_symbol shapePath_cases)
  show "clipPaths (d_state ?sd) = [[RoundRect ?x ?x ?s ?s (0.1 * ?s)]]"
    if "shape ?opts = RoundedShape"
    using that by (simp add: cp shapePath_cases)
  show "imagePixel ?sd p = in_round_rect ?x ?x ?s ?s (0.1 * ?s) p"
    if "shape ?opts = RoundedShape" for p
    using that by (auto simp add: imagePixel_symbol shapePath_cases in_round_rect_def Let_def)
  show "clipPaths (d_state ?sd) = [[Arc (?x + ?s / 2) (?x + ?s / 2) (?s / 2) 0 (2 * pi)]]"
    if "shape ?opts = Circle"
    using that by (simp add: cp shapePath_cases)
  show "in_disc (?x + ?s / 2) (?x + ?s / 2) (?s / 2) p"
    if "shape ?opts = Circle" "imagePixel ?sd p" for p
    using that by (simp add: imagePixel_symbol shapePath_cases)
  show "clipPaths (d_state ?sd) =
          [map (\<lambda>v. MoveTo (fst v) (snd v))
             (map (hexVertex (?x + ?s / 2) (?x + ?s / 2) (?s / 2)) [0]) @
           map (\<lambda>v. LineTo (fst v) (snd v))
             (map (hexVertex (?x + ?s / 2) (?x + ?s / 2) (?s / 2)) [1..6]) @
           [ClosePath]]"
    if "shape ?opts = Hexagon"
    using that by (simp add: cp shapePath_cases hexLines_def hexVertex_def comp_def Let_def)
  show "hexVertex (?x + ?s / 2) (?x + ?s / 2) (?s / 2) i =
          (?x + ?s / 2 + ?s / 2 * cos (real_of_int i * (pi / 3)),
           ?x + ?s / 2 + ?s / 2 * sin (real_of_int i * (pi / 3)))" for i
    by (simp add: hexVertex_def Let_def)
  show "in_hull (map (hexVertex (?x + ?s / 2) (?x + ?s / 2) (?s / 2)) [1..6]) p"
    if "shape ?opts = Hexagon" "imagePixel ?sd p" for p
    using that by (rule hexagon_pixels)
qed

theorem symbol_clip_shape_witness:
  "completes okBrowser (demoApp FNone Square [] []) qrUrl \<and>
   shape (options (demoApp FNone Square [] [])) = Square \<and>
   imagePixel (symbolDraw (options (demoApp FNone Square [] [])) qrUrl) (0, 300) \<and>
   completes okBrowser (demoApp Simple RoundedShape [] []) qrUrl \<and>
   shape (options (demoApp Simple RoundedShape [] [])) = RoundedShape \<and>
   clipPaths (d_state (symbolDraw (options (demoApp Simple RoundedShape [] [])) qrUrl)) =
     [[RoundRect 30 30 300 300 30]] \<and>
   completes okBrowser (demoApp FNone Circle [] []) qrUrl \<and>
   shape (options (demoApp FNone Circle [] [])) = Circle \<and>
   imagePixel (symbolDraw (options (demoApp FNone Circle [] [])) qrUrl) (150, 10) \<and>
   in_disc 150 150 150 (150, 10) \<and>
   completes okBrowser (demoApp FNone Hexagon [] []) qrUrl \<and>
   shape (options (demoApp FNone Hexagon [] [])) = Hexagon \<and>
   imagePixel (symbolDraw (options (demoApp FNone Hexagon [] [])) qrUrl) (150, 150) \<and>
   in_hull (map (hexVertex 150 150 150) [1..6]) (150, 150)"
proof -
  have c: "imagePixel (symbolDraw (options (demoApp FNone Circle [] [])) qrUrl) (150, 10)"
    by (simp add: imagePixel_symbol shapePath_cases shape_demo qrX_demo qsize_demo
        in_rect_def in_disc_def)
  have h: "imagePixel (symbolDraw (options (demoApp FNone Hexagon [] [])) qrUrl) (150, 150)"
    using hexagon_centre
    by (simp add: imagePixel_symbol shapePath_cases shape_demo qrX_demo qsize_demo
        in_rect_def lineToPoints_hexLines)
  have q: "in_rect 0 0 300 300 (0, 300)"
    by (simp add: in_rect_def)
  show ?thesis
    using symbol_clip_shape [OF completes_demo [of FNone Square "[]" "[]"]]
      symbol_clip_shape [OF completes_demo [of Simple RoundedShape "[]" "[]"]]
      symbol_clip_shape [OF completes_demo [of FNone Circle "[]" "[]"]]
      symbol_clip_shape [OF completes_demo [of FNone Hexagon "[]" "[]"]]
      completes_demo [of FNone Square "[]" "[]"]
      completes_demo [of Simple RoundedShape "[]" "[]"]
      completes_demo [of FNone Circle "[]" "[]"] completes_demo [of FNone Hexagon "[]" "[]"]
      c h q
    by (simp add: shape_demo qrX_demo qsize_demo)
qed

subsection \<open>C6: an encoding failure\<close>

text \<open>
  C6. When the encoder rejects the payload (\<open>toDataURL\<close> throws, as it does for a text
  beyond the symbol's capacity at the chosen level), the render logs the error, shows the
  notification "Failed to generate QR code" and does nothing else: the canvas is not
  touched and \<open>qrDataUrl\<close>, the artifact of an earlier render, stays as it was.
\<close>

theorem encoding_failure_aborts:
  assumes "QRCode_toDataURL env (qtext (options st)) (qrOptions (options st)) = Inl err"
  shows "generateQR env st =
           st\<lparr>console := console st @ [(''Error generating QR code:'', err)],
              toasts := toasts st @ [ToastError ''Failed to generate QR code'']\<rparr> \<and>
         toasts (generateQR env st) = toasts st @ [ToastError ''Failed to generate QR code''] \<and>
         canvasRef (generateQR env st) = canvasRef st \<and>
         qrDataUrl (generateQR env st) = qrDataUrl st"
  using assms by (simp add: generateQR_def)

theorem encoding_failure_aborts_witness:
  "QRCode_toDataURL failingBrowser (qtext (options (initialApp\<lparr>qrDataUrl := ''data:old''\<rparr>)))
      (qrOptions (options (initialApp\<lparr>qrDataUrl := ''data:old''\<rparr>))) =
     Inl ''The amount of data is too big to be stored in a QR Code'' \<and>
   toasts (generateQR failingBrowser (initialApp\<lparr>qrDataUrl := ''data:old''\<rparr>)) =
     [ToastError ''Failed to generate QR code''] \<and>
   canvasRef (generateQR failingBrowser (initialApp\<lparr>qrDataUrl := ''data:old''\<rparr>)) =
     Some \<lparr>width = 300, height = 150, ctx = fresh_ctx\<rparr> \<and>
   qrDataUrl (generateQR failingBrowser (initialApp\<lparr>qrDataUrl := ''data:old''\<rparr>)) = ''data:old''"
proof -
  have h: "QRCode_toDataURL failingBrowser
      (qtext (options (initialApp\<lparr>qrDataUrl := ''data:old''\<rparr>)))
      (qrOptions (options (initialApp\<lparr>qrDataUrl := ''data:old''\<rparr>))) =
     Inl ''The amount of data is too big to be stored in a QR Code''"
    by (simp add: failingBrowser_def okBrowser_def)
  show ?thesis
    using h encoding_failure_aborts [OF h] by (simp add: initialApp_def)
qed

subsection \<open>C7: the size limit on the logo\<close>

text \<open>
  C7. A logo file of more than 5 MB (5 * 1024 * 1024 bytes) is rejected: the only effect is
  the notification "Logo file size must be less than 5MB", and \<open>logoDataUrl\<close> and
  \<open>logoFile\<close> are left as they were (unset, when no logo had been accepted before). A file
  within the limit is accepted: it becomes \<open>logoFile\<close>, and once the file reader has read
  it, \<open>logoDataUrl\<close> is the reader's result and the notification "Logo uploaded
  successfully!" is shown.
\<close>

theorem logo_upload_limit:
  "(file_size f > 5 * 1024 * 1024 \<longrightarrow>
      handleLogoUpload env (Some f) st =
        st\<lparr>toasts := toasts st @ [ToastError ''Logo file size must be less than 5MB'']\<rparr> \<and>
      logoDataUrl (handleLogoUpload env (Some f) st) = logoDataUrl st \<and>
      (logoDataUrl st = [] \<longrightarrow> logoDataUrl (handleLogoUpload env (Some f) st) = []) \<and>
      logoFile (handleLogoUpload env (Some f) st) = logoFile st) \<and>
   (file_size f \<le> 5 * 1024 * 1024 \<and> readAsDataURL env f = Some url \<longrightarrow>
      logoFile (handleLogoUpload env (Some f) st) = Some f \<and>
      logoDataUrl (handleLogoUpload env (Some f) st) = url \<and>
      toasts (handleLogoUpload env (Some f) st) =
        toasts st @ [ToastSuccess ''Logo uploaded successfully!''])"
  by (simp add: handleLogoUpload_def Let_def)

theorem logo_upload_limit_witness:
  "file_size \<lparr>file_name = ''big.png'', file_size = 6291456\<rparr> > 5 * 1024 * 1024 \<and>
   logoDataUrl (handleLogoUpload okBrowser
      (Some \<lparr>file_name = ''big.png'', file_size = 6291456\<rparr>) initialApp) = [] \<and>
   toasts (handleLogoUpload okBrowser
      (Some \<lparr>file_name = ''big.png'', file_size = 6291456\<rparr>) initialApp) =
     [ToastError ''Logo file size must be less than 5MB''] \<and>
   file_size \<lparr>file_name = ''ok.png'', file_size = 4194304\<rparr> \<le> 5 * 1024 * 1024 \<and>
   readAsDataURL okBrowser \<lparr>file_name = ''ok.png'', file_size = 4194304\<rparr> =
     Some ''data:image/png;base64,LOGO'' \<and>
   logoDataUrl (handleLogoUpload okBrowser
      (Some \<lparr>file_name = ''ok.png'', file_size = 4194304\<rparr>) initialApp) =
     ''data:image/png;base64,LOGO'' \<and>
   toasts (handleLogoUpload okBrowser
      (Some \<lparr>file_name = ''ok.png'', file_size = 4194304\<rparr>) initialApp) =
     [ToastSuccess ''Logo uploaded successfully!'']"
  using logo_upload_limit [of "\<lparr>file_name = ''big.png'', file_size = 6291456\<rparr>" okBrowser
      initialApp "''data:image/png;base64,LOGO''"]
    logo_upload_limit [of "\<lparr>file_name = ''ok.png'', file_size = 4194304\<rparr>" okBrowser
      initialApp "''data:image/png;base64,LOGO''"]
  by (simp add: okBrowser_def initialApp_def)

subsection \<open>C8: the shape clip is released after the symbol draw\<close>

text \<open>
  C8. \<open>applyQRShape\<close> saves the drawing state before it clips, and \<open>generateQR\<close> restores
  it right after the symbol's \<open>drawImage\<close>: the drawing state and the stack of saved states
  are then what they were before \<open>applyQRShape\<close>. In a completed render the symbol is the
  one draw issued under the shape's clip path, and every draw issued after it (a border
  frame, the logo's disc, the logo, the caption) is issued with no clip at all.
\<close>

theorem clip_released:
  "cur (restore (paint_op l p (applyQRShape opts x y sz c))) = cur c \<and>
   stack (restore (paint_op l p (applyQRShape opts x y sz c))) = stack c \<and>
   (completes env st dataUrl \<longrightarrow>
      layerDraws SymbolLayer (canvasLog (generateQR env st)) =
        [symbolDraw (options st) dataUrl] \<and>
      clipPaths (d_state (symbolDraw (options st) dataUrl)) =
        [shapePath (options st) (qrX (options st)) (qrX (options st))
           (real (qsize (options st)))] \<and>
      (\<forall>d \<in> set (afterFirst SymbolLayer (canvasLog (generateQR env st))).
         clipPaths (d_state d) = []))"
proof (intro conjI impI ballI)
  show "cur (restore (paint_op l p (applyQRShape opts x y sz c))) = cur c"
    by (simp add: restore_def paint_op_def applyQRShape_stack)
  show "stack (restore (paint_op l p (applyQRShape opts x y sz c))) = stack c"
    by (simp add: restore_def paint_op_def applyQRShape_stack)
next
  assume a: "completes env st dataUrl"
  show "layerDraws SymbolLayer (canvasLog (generateQR env st)) =
        [symbolDraw (options st) dataUrl]"
    by (simp add: render_log [OF a] layerDraws_expected)
  show "clipPaths (d_state (symbolDraw (options st) dataUrl)) =
        [shapePath (options st) (qrX (options st)) (qrX (options st))
           (real (qsize (options st)))]"
    by (simp add: symbolDraw_def)
  fix d
  assume "d \<in> set (afterFirst SymbolLayer (canvasLog (generateQR env st)))"
  then have "d \<in> set (frameDraws (options st)) \<or>
      d \<in> set (logoDraws (options st) (logoDataUrl st)) \<or> d \<in> set (captionDraws (options st))"
    by (auto simp add: render_log [OF a] after_symbol split: if_splits)
  then show "clipPaths (d_state d) = []"
    using frameDraws_clip [of d "options st"]
    by (auto simp add: logoDraws_def captionDraws_def default_state_def split: if_splits)
qed

theorem clip_released_witness:
  "completes okBrowser (demoApp Vintage Hexagon ''Scan Me'' ''data:logo'') qrUrl \<and>
   cur (restore (paint_op SymbolLayer (DrawImage (QrImg qrUrl) 30 30 300 300)
          (applyQRShape (options (demoApp Vintage Hexagon ''Scan Me'' ''data:logo''))
             30 30 300 fresh_ctx))) = default_state \<and>
   list_all (\<lambda>d. clipPaths (d_state d) = [])
     (afterFirst SymbolLayer
        (canvasLog (generateQR okBrowser (demoApp Vintage Hexagon ''Scan Me'' ''data:logo''))))"
  using clip_released [of SymbolLayer "DrawImage (QrImg qrUrl) 30 30 300 300"
      "options (demoApp Vintage Hexagon ''Scan Me'' ''data:logo'')" 30 30 300 fresh_ctx
      okBrowser "demoApp Vintage Hexagon ''Scan Me'' ''data:logo''" qrUrl]
    completes_demo [of Vintage Hexagon "''Scan Me''" "''data:logo''"]
  by (simp add: list_all_iff fresh_ctx_def)

subsection \<open>C9: the two tests on the frame's class\<close>

text \<open>
  C9. The test before the symbol draw and the negated test after it are on the same set
  of styles, speech-bubble, wavy and card-style: for a frame type other than \<open>none\<close>
  exactly one of them holds. So in a completed render with a frame the draws of the frame
  layer are those of one call of \<open>drawFrame\<close>, not none and not twice: all of them before
  the symbol draw when the first test holds, all of them after it otherwise.
\<close>

theorem frame_drawn_once:
  "frameFirst opts = (frameType opts \<in> {SpeechBubble, Wavy, CardStyle}) \<and>
   frameAfter opts = (frameType opts \<noteq> FNone \<and> frameType opts \<notin> {SpeechBubble, Wavy, CardStyle}) \<and>
   (frameType opts \<noteq> FNone \<longrightarrow> frameFirst opts = (\<not> frameAfter opts)) \<and>
   (completes env st dataUrl \<and> frameType (options st) \<noteq> FNone \<longrightarrow>
      layerDraws FrameLayer (canvasLog (generateQR env st)) = frameDraws (options st) \<and>
      frameDraws (options st) \<noteq> [] \<and>
      (if frameFirst (options st)
       then layerDraws FrameLayer (beforeFirst SymbolLayer (canvasLog (generateQR env st))) =
              frameDraws (options st) \<and>
            layerDraws FrameLayer (afterFirst SymbolLayer (canvasLog (generateQR env st))) = []
       else layerDraws FrameLayer (beforeFirst SymbolLayer (canvasLog (generateQR env st))) = [] \<and>
            layerDraws FrameLayer (afterFirst SymbolLayer (canvasLog (generateQR env st))) =
              frameDraws (options st)))"
proof (intro conjI impI)
  show "frameFirst opts = (frameType opts \<in> {SpeechBubble, Wavy, CardStyle})"
    by (rule frameFirst_iff)
  show "frameAfter opts = (frameType opts \<noteq> FNone \<and> frameType opts \<notin> {SpeechBubble, Wavy, CardStyle})"
    by (auto simp add: frameAfter_def)
  show "frameFirst opts = (\<not> frameAfter opts)" if "frameType opts \<noteq> FNone"
    using that by (auto simp add: frameFirst_def frameAfter_def)
next
  assume a: "completes env st dataUrl \<and> frameType (options st) \<noteq> FNone"
  then have c: "completes env st dataUrl" and n: "frameType (options st) \<noteq> FNone"
    by simp_all
  have x: "frameFirst (options st) = (\<not> frameAfter (options st))"
    using n by (auto simp add: frameFirst_def frameAfter_def)
  show "layerDraws FrameLayer (canvasLog (generateQR env st)) = frameDraws (options st)"
    using x by (simp add: render_log [OF c] layerDraws_expected)
  show "frameDraws (options st) \<noteq> []"
    using n by (simp add: frameDraws_empty)
  have l: "layerDraws FrameLayer (logoDraws (options st) (logoDataUrl st)) = []"
    "layerDraws FrameLayer (captionDraws (options st)) = []"
    by (simp_all add: layerDraws_def logoDraws_def captionDraws_def)
  show "if frameFirst (options st)
       then layerDraws FrameLayer (beforeFirst SymbolLayer (canvasLog (generateQR env st))) =
              frameDraws (options st) \<and>
            layerDraws FrameLayer (afterFirst SymbolLayer (canvasLog (generateQR env st))) = []
       else layerDraws FrameLayer (beforeFirst SymbolLayer (canvasLog (generateQR env st))) = [] \<and>
            layerDraws FrameLayer (afterFirst SymbolLayer (canvasLog (generateQR env st))) =
              frameDraws (options st)"
    using x l
    by (simp add: render_log [OF c] before_symbol after_symbol layerDraws_append
        layerDraws_Cons layerDraws_Nil clearDraw_layer)
qed

theorem frame_drawn_once_witness:
  "completes okBrowser (demoApp Neon Square [] []) qrUrl \<and>
   frameType (options (demoApp Neon Square [] [])) \<noteq> FNone \<and>
   \<not> frameFirst (options (demoApp Neon Square [] [])) \<and>
   frameAfter (options (demoApp Neon Square [] [])) \<and>
   length (layerDraws FrameLayer (canvasLog (generateQR okBrowser (demoApp Neon Square [] [])))) = 2 \<and>
   layerDraws FrameLayer
     (beforeFirst SymbolLayer (canvasLog (generateQR okBrowser (demoApp Neon Square [] [])))) = [] \<and>
   completes okBrowser (demoApp CardStyle Square [] []) qrUrl \<and>
   frameType (options (demoApp CardStyle Square [] [])) \<noteq> FNone \<and>
   frameFirst (options (demoApp CardStyle Square [] [])) \<and>
   \<not> frameAfter (options (demoApp CardStyle Square [] [])) \<and>
   length (layerDraws FrameLayer
     (canvasLog (generateQR okBrowser (demoApp CardStyle Square [] [])))) = 2 \<and>
   layerDraws FrameLayer
     (afterFirst SymbolLayer (canvasLog (generateQR okBrowser (demoApp CardStyle Square [] [])))) = []"
proof -
  have f: "length (frameDraws (options (demoApp Neon Square [] []))) = 2"
    by (simp add: frameDraws_def options_demo drawFrame_def Let_def run_Cons run_Nil ctx_ops
        fresh_ctx_def)
  have g: "length (frameDraws (options (demoApp CardStyle Square [] []))) = 2"
    by (simp add: frameDraws_def options_demo drawFrame_def Let_def run_Cons run_Nil ctx_ops
        fresh_ctx_def)
  show ?thesis
    using frame_drawn_once [of "options (demoApp Neon Square [] [])" okBrowser
        "demoApp Neon Square [] []" qrUrl]
      frame_drawn_once [of "options (demoApp CardStyle Square [] [])" okBrowser
        "demoApp CardStyle Square [] []" qrUrl]
      completes_demo [of Neon Square "[]" "[]"] completes_demo [of CardStyle Square "[]" "[]"]
      f g
    by (simp add: options_demo)
qed

subsection \<open>C10: drawFrame leaves the drawing state as it found it\<close>

text \<open>
  C10. For every frame type, \<open>drawFrame\<close> saves the drawing state before the style's
  commands and restores it after them: the current state and the stack of saved states are
  the same after the call as before it, whatever the style set in between (shadow colour,
  blur and offsets, fill and stroke styles, line width). So in a completed render every
  draw that is not the frame's (the symbol, the logo's disc, the logo, the caption) is
  issued with the default shadow, stroke style and line width, and with the fill style the
  render itself chose for it.
\<close>

theorem drawFrame_restores_state:
  "cur (drawFrame opts fs c) = cur c \<and> stack (drawFrame opts fs c) = stack c \<and>
   (completes env st dataUrl \<longrightarrow>
     (\<forall>d \<in> set (canvasLog (generateQR env st)). d_layer d \<noteq> FrameLayer \<longrightarrow>
        shadowColor (d_state d) = shadowColor default_state \<and>
        shadowBlur (d_state d) = 0 \<and> shadowOffsetX (d_state d) = 0 \<and>
        shadowOffsetY (d_state d) = 0 \<and>
        strokeStyle (d_state d) = strokeStyle default_state \<and>
        lineWidth (d_state d) = lineWidth default_state \<and>
        fillStyle (d_state d) =
          (case d_layer d of
             LogoDiscLayer \<Rightarrow> Color (backgroundColor (options st))
           | LogoLayer \<Rightarrow> Color (backgroundColor (options st))
           | CaptionLayer \<Rightarrow> Color (bottomTextColor (options st))
           | _ \<Rightarrow> fillStyle default_state)))"
proof (intro conjI impI ballI)
  show "cur (drawFrame opts fs c) = cur c" by (rule drawFrame_cur)
  show "stack (drawFrame opts fs c) = stack c" by (rule drawFrame_stack)
next
  fix d
  assume a: "completes env st dataUrl" "d \<in> set (canvasLog (generateQR env st))"
    "d_layer d \<noteq> FrameLayer"
  let ?P = "\<lambda>d. shadowColor (d_state d) = shadowColor default_state \<and>
        shadowBlur (d_state d) = 0 \<and> shadowOffsetX (d_state d) = 0 \<and>
        shadowOffsetY (d_state d) = 0 \<and>
        strokeStyle (d_state d) = strokeStyle default_state \<and>
        lineWidth (d_state d) = lineWidth default_state \<and>
        fillStyle (d_state d) =
          (case d_layer d of
             LogoDiscLayer \<Rightarrow> Color (backgroundColor (options st))
           | LogoLayer \<Rightarrow> Color (backgroundColor (options st))
           | CaptionLayer \<Rightarrow> Color (bottomTextColor (options st))
           | _ \<Rightarrow> fillStyle default_state)"
  from a have "d = clearDraw (options st) \<or> d = symbolDraw (options st) dataUrl \<or>
      d \<in> set (logoDraws (options st) (logoDataUrl st)) \<or> d \<in> set (captionDraws (options st))"
    using expectedLog_nonframe render_log by metis
  moreover have "?P (clearDraw (options st))"
    by (simp add: clearDraw_def default_state_def)
  moreover have "?P (symbolDraw (options st) dataUrl)"
    by (simp add: symbolDraw_def default_state_def)
  moreover have "\<And>d. d \<in> set (logoDraws (options st) (logoDataUrl st)) \<Longrightarrow> ?P d"
    by (auto simp add: logoDraws_def default_state_def split: if_splits)
  moreover have "\<And>d. d \<in> set (captionDraws (options st)) \<Longrightarrow> ?P d"
    by (auto simp add: captionDraws_def default_state_def split: if_splits)
  ultimately have "?P d" by blast
  then show "shadowColor (d_state d) = shadowColor default_state"
    "shadowBlur (d_state d) = 0" "shadowOffsetX (d_state d) = 0"
    "shadowOffsetY (d_state d) = 0" "strokeStyle (d_state d) = strokeStyle default_state"
    "lineWidth (d_state d) = lineWidth default_state"
    "fillStyle (d_state d) =
          (case d_layer d of
             LogoDiscLayer \<Rightarrow> Color (backgroundColor (options st))
           | LogoLayer \<Rightarrow> Color (backgroundColor (options st))
           | CaptionLayer \<Rightarrow> Color (bottomTextColor (options st))
           | _ \<Rightarrow> fillStyle default_state)"
    by simp_all
qed

theorem drawFrame_restores_state_witness:
  "completes okBrowser (demoApp Neon Circle ''Scan Me'' ''data:logo'') qrUrl \<and>
   cur (drawFrame (options (demoApp Neon Circle ''Scan Me'' ''data:logo'')) 360 fresh_ctx) =
     default_state \<and>
   stack (drawFrame (options (demoApp Neon Circle ''Scan Me'' ''data:logo'')) 360 fresh_ctx) = [] \<and>
   list_all (\<lambda>d. d_layer d = FrameLayer \<or>
                 (shadowBlur (d_state d) = 0 \<and> shadowColor (d_state d) = ''rgba(0, 0, 0, 0)''))
     (canvasLog (generateQR okBrowser (demoApp Neon Circle ''Scan Me'' ''data:logo'')))"
  using drawFrame_restores_state [of "options (demoApp Neon Circle ''Scan Me'' ''data:logo'')"
      360 fresh_ctx okBrowser "demoApp Neon Circle ''Scan Me'' ''data:logo''" qrUrl]
    completes_demo [of Neon Circle "''Scan Me''" "''data:logo''"]
  by (auto simp add: list_all_iff fresh_ctx_def default_state_def)

end
